theory Spec2Isabelle
  imports Complex_Main "HOL-Library.Product_Lexorder" "HOL-Library.List_Lexorder"
begin

section \<open>Python values\<close>

text \<open>
  A Python \<open>str\<close> is a sequence of Unicode code points; it is modelled as the list of
  its code points. \<open>u\<close> turns an ASCII literal into such a list; the Chinese display
  labels of the source are written out as code points, each next to its source literal.
\<close>

type_synonym ustr = "nat list"

definition u :: "string \<Rightarrow> ustr" where
  "u s = map of_char s"

text \<open>
  A Python \<open>float\<close> is an IEEE double: a finite value (represented by the real number it
  denotes), an infinity, or NaN. The code only converts, compares and passes floats on;
  it does no float arithmetic, so no rounding of results is involved.
\<close>

datatype pyfloat = Finite real | PosInf | NegInf | NaN

text \<open>The values \<open>json.loads\<close> yields (it also accepts the literals NaN and Infinity).\<close>

datatype pyval =
    PNone
  | PBool bool
  | PInt int
  | PFloat pyfloat
  | PStr ustr
  | PList "pyval list"
  | PDict "(ustr \<times> pyval) list"

type_synonym pydict = "(ustr \<times> pyval) list"

datatype error =
    TypeError | ValueError | AttributeError | KeyError | OverflowError
  | FileNotFoundError | OSError | YAMLError | Unmodelled

definition bindE :: "error + 'a \<Rightarrow> ('a \<Rightarrow> error + 'b) \<Rightarrow> error + 'b" where
  "bindE m f = (case m of Inl e \<Rightarrow> Inl e | Inr x \<Rightarrow> f x)"

subsection \<open>Comparison of floats\<close>

text \<open>IEEE comparison: every comparison with NaN is false.\<close>

fun float_lt :: "pyfloat \<Rightarrow> pyfloat \<Rightarrow> bool" where
  "float_lt NaN b = False"
| "float_lt a NaN = False"
| "float_lt (Finite x) (Finite y) = (x < y)"
| "float_lt (Finite x) PosInf = True"
| "float_lt (Finite x) NegInf = False"
| "float_lt PosInf b = False"
| "float_lt NegInf (Finite y) = True"
| "float_lt NegInf PosInf = True"
| "float_lt NegInf NegInf = False"

definition float_le :: "pyfloat \<Rightarrow> pyfloat \<Rightarrow> bool" where
  "float_le a b = (float_lt a b \<or> (a = b \<and> a \<noteq> NaN))"

definition float_gt :: "pyfloat \<Rightarrow> pyfloat \<Rightarrow> bool" where
  "float_gt a b = float_lt b a"

definition float_ge :: "pyfloat \<Rightarrow> pyfloat \<Rightarrow> bool" where
  "float_ge a b = float_le b a"

subsection \<open>Truthiness, \<open>or\<close>, \<open>dict.get\<close>\<close>

fun truthy :: "pyval \<Rightarrow> bool" where
  "truthy PNone = False"
| "truthy (PBool b) = b"
| "truthy (PInt i) = (i \<noteq> 0)"
| "truthy (PFloat f) = (f \<noteq> Finite 0)"
| "truthy (PStr s) = (s \<noteq> [])"
| "truthy (PList xs) = (xs \<noteq> [])"
| "truthy (PDict kv) = (kv \<noteq> [])"

text \<open>\<open>a or b\<close>: \<open>a\<close> when it is truthy, else \<open>b\<close>.\<close>

definition py_or :: "pyval \<Rightarrow> pyval \<Rightarrow> pyval" where
  "py_or a b = (if truthy a then a else b)"

text \<open>
  A dict is an association list; \<open>map_of\<close> reads it, so the first binding of a key is
  the dict's entry. \<open>get d k\<close> is \<open>d.get(k)\<close>, \<open>get_default d k v\<close> is \<open>d.get(k, v)\<close>.
\<close>

definition get :: "pydict \<Rightarrow> string \<Rightarrow> pyval" where
  "get d k = (case map_of d (u k) of None \<Rightarrow> PNone | Some v \<Rightarrow> v)"

definition get_default :: "pydict \<Rightarrow> string \<Rightarrow> pyval \<Rightarrow> pyval" where
  "get_default d k v = (case map_of d (u k) of None \<Rightarrow> v | Some w \<Rightarrow> w)"

subsection \<open>Built-in conversions\<close>

text \<open>
  Library functions that the code only calls are taken as parameters: \<open>float\<close> on a
  \<open>str\<close> (\<open>None\<close> when it raises ValueError), \<open>str\<close> on a float, a list or a dict,
  \<open>json.dumps(_, ensure_ascii=False)\<close> on a dict, \<open><\<close> between two lists, and the merge
  phase of \<open>list.sort\<close>, which only lists of 64 or more elements reach (it is given
  the keys with their elements in the order of the input and yields the sorted elements
  or the exception).
\<close>

record builtins =
  float_of_str :: "ustr \<Rightarrow> pyfloat option"
  repr_of :: "pyval \<Rightarrow> ustr"
  json_dumps :: "pydict \<Rightarrow> ustr"
  lt_list :: "pyval list \<Rightarrow> pyval list \<Rightarrow> error + bool"
  sort_long :: "(pyval \<times> int) list \<Rightarrow> error + int list"

fun bit_length :: "nat \<Rightarrow> nat" where
  "bit_length n = (if n = 0 then 0 else Suc (bit_length (n div 2)))"

text \<open>
  \<open>float(i)\<close> for an int: exact up to 53 bits, otherwise rounded to 53 significant bits,
  ties to even; OverflowError when the rounded value does not fit a double.
\<close>

definition float_of_int :: "int \<Rightarrow> error + pyfloat" where
  "float_of_int i =
     (let a = nat \<bar>i\<bar>; n = bit_length a in
      if n \<le> 53 then Inr (Finite (real_of_int i))
      else
        let sh = n - 53; q = a div 2 ^ sh; r = a mod 2 ^ sh; h = 2 ^ (sh - 1);
            q' = (if r > h \<or> (r = h \<and> odd q) then q + 1 else q);
            v = q' * 2 ^ sh
        in if v \<ge> 2 ^ 1024 then Inl OverflowError
           else Inr (Finite (real_of_int (sgn i * int v))))"

fun py_float :: "builtins \<Rightarrow> pyval \<Rightarrow> error + pyfloat" where
  "py_float B (PFloat f) = Inr f"
| "py_float B (PInt i) = float_of_int i"
| "py_float B (PBool b) = Inr (Finite (if b then 1 else 0))"
| "py_float B (PStr s) = (case float_of_str B s of None \<Rightarrow> Inl ValueError | Some f \<Rightarrow> Inr f)"
| "py_float B PNone = Inl TypeError"
| "py_float B (PList xs) = Inl TypeError"
| "py_float B (PDict kv) = Inl TypeError"

subsection \<open>\<open>str\<close>, \<open>strip\<close>, \<open>startswith\<close>, iteration, \<open>join\<close>\<close>

fun decimal :: "nat \<Rightarrow> ustr" where
  "decimal n = (if n < 10 then [48 + n] else decimal (n div 10) @ [48 + n mod 10])"

text \<open>\<open>str(v)\<close>; an f-string field \<open>{v}\<close> formats these values the same way.\<close>

fun py_str :: "builtins \<Rightarrow> pyval \<Rightarrow> ustr" where
  "py_str B (PStr s) = s"
| "py_str B PNone = u ''None''"
| "py_str B (PBool b) = (if b then u ''True'' else u ''False'')"
| "py_str B (PInt i) = (if i < 0 then 45 # decimal (nat (- i)) else decimal (nat i))"
| "py_str B v = repr_of B v"

text \<open>The code points for which \<open>str.isspace\<close> holds; \<open>strip()\<close> removes them at both ends.\<close>

definition isspace :: "nat \<Rightarrow> bool" where
  "isspace c = ((9 \<le> c \<and> c \<le> 13) \<or> (28 \<le> c \<and> c \<le> 32) \<or> c = 133 \<or> c = 160
     \<or> c = 5760 \<or> (8192 \<le> c \<and> c \<le> 8202) \<or> c = 8232 \<or> c = 8233 \<or> c = 8239
     \<or> c = 8287 \<or> c = 12288)"

definition strip :: "ustr \<Rightarrow> ustr" where
  "strip s = rev (dropWhile isspace (rev (dropWhile isspace s)))"

definition startswith :: "ustr \<Rightarrow> ustr \<Rightarrow> bool" where
  "startswith s p = (take (length p) s = p)"

text \<open>\<open>v.startswith(p)\<close> on any value: only a \<open>str\<close> has the method.\<close>

fun py_startswith :: "pyval \<Rightarrow> ustr \<Rightarrow> error + bool" where
  "py_startswith (PStr s) p = Inr (startswith s p)"
| "py_startswith v p = Inl AttributeError"

text \<open>\<open>for x in v\<close>: a list gives its items, a str its characters, a dict its keys.\<close>

fun py_iter :: "pyval \<Rightarrow> error + pyval list" where
  "py_iter (PList xs) = Inr xs"
| "py_iter (PStr s) = Inr (map (\<lambda>c. PStr [c]) s)"
| "py_iter (PDict kv) = Inr (map PStr (remdups (map fst kv)))"
| "py_iter v = Inl TypeError"

fun mapE :: "('a \<Rightarrow> error + 'b) \<Rightarrow> 'a list \<Rightarrow> error + 'b list" where
  "mapE f [] = Inr []"
| "mapE f (x # xs) = bindE (f x) (\<lambda>y. bindE (mapE f xs) (\<lambda>ys. Inr (y # ys)))"

text \<open>\<open>v.get(k, dflt)\<close> on any value: only a dict has the method.\<close>

fun py_get_default :: "pyval \<Rightarrow> string \<Rightarrow> pyval \<Rightarrow> error + pyval" where
  "py_get_default (PDict kv) k dflt = Inr (get_default kv k dflt)"
| "py_get_default v k dflt = Inl AttributeError"

fun intercalate :: "ustr \<Rightarrow> ustr list \<Rightarrow> ustr" where
  "intercalate sep [] = []"
| "intercalate sep [s] = s"
| "intercalate sep (s # t # ss) = s @ sep @ intercalate sep (t # ss)"

fun str_items :: "pyval list \<Rightarrow> error + ustr list" where
  "str_items [] = Inr []"
| "str_items (PStr s # vs) = bindE (str_items vs) (\<lambda>ss. Inr (s # ss))"
| "str_items (v # vs) = Inl TypeError"

text \<open>\<open>sep.join(items)\<close>: TypeError unless every item is a \<open>str\<close>.\<close>

definition py_join :: "ustr \<Rightarrow> pyval list \<Rightarrow> error + ustr" where
  "py_join sep vs = bindE (str_items vs) (\<lambda>ss. Inr (intercalate sep ss))"

subsection \<open>Numbers: \<open>max\<close> and \<open>min\<close>\<close>

datatype pynum = NInt int | NFloat pyfloat

text \<open>Python compares an int with a float by their exact values.\<close>

fun num_float :: "pynum \<Rightarrow> pyfloat" where
  "num_float (NInt i) = Finite (real_of_int i)"
| "num_float (NFloat f) = f"

definition num_lt :: "pynum \<Rightarrow> pynum \<Rightarrow> bool" where
  "num_lt a b = float_lt (num_float a) (num_float b)"

text \<open>\<open>max(a, b)\<close> is \<open>b\<close> when \<open>b > a\<close>, else \<open>a\<close>; \<open>min(a, b)\<close> is \<open>b\<close> when \<open>b < a\<close>, else \<open>a\<close>.\<close>

definition py_max :: "pynum \<Rightarrow> pynum \<Rightarrow> pynum" where
  "py_max a b = (if num_lt a b then b else a)"

definition py_min :: "pynum \<Rightarrow> pynum \<Rightarrow> pynum" where
  "py_min a b = (if num_lt b a then b else a)"

section \<open>The gross-value correction\<close>

text \<open>
  The literal \<open>99_999_999.99\<close> denotes the double nearest to it, which is
  \<open>6710886399328911 / 2^26\<close>.
\<close>

definition AGDP_CAP :: pyfloat where
  "AGDP_CAP = Finite (6710886399328911 / 67108864)"

text \<open>
  \<^verbatim>\<open>
  def _fix_capped_agdp(gross_agdp: float, volume: float) -> float:
      AGDP_CAP = 99_999_999.99
      if float(gross_agdp) >= AGDP_CAP and float(volume) > AGDP_CAP:
          return float(volume)
      return float(gross_agdp)
  \<close>
  \<open>and\<close> evaluates \<open>float(volume)\<close> only when the first comparison holds.
\<close>

definition fix_capped_agdp :: "builtins \<Rightarrow> pyval \<Rightarrow> pyval \<Rightarrow> error + pyfloat" where
  "fix_capped_agdp B gross_agdp volume =
     bindE (py_float B gross_agdp) (\<lambda>g.
       if float_ge g AGDP_CAP then
         bindE (py_float B volume) (\<lambda>v.
           if float_gt v AGDP_CAP then Inr v else Inr g)
       else Inr g)"

section \<open>Data model\<close>

record Offering =
  name :: pyval
  description :: pyval
  type :: pyval
  price :: pyval
  price_type :: pyval
  sla_minutes :: pyval
  requires_funds :: pyval
  requirement :: ustr
  deliverable :: ustr

text \<open>
  A dataclass does not check its fields' types: a field the merge passes through holds
  whatever value the upstream record had.
\<close>

record AgentData =
  rank :: int
  agent_id :: pyval
  agent_link :: ustr
  name :: pyval
  category :: ustr
  description :: pyval
  volume :: pyval
  gross_agdp :: pyfloat
  revenue :: pyval
  success_rate :: pynum
  rating :: pyval
  total_jobs :: pyval
  successful_jobs :: pyval
  unique_active_wallets :: pyval
  unique_buyers :: pyval
  online_status :: ustr
  last_active_at :: pyval
  transaction_count :: pyval
  offerings :: "Offering list"
  wallet_address :: pyval
  contract_address :: pyval
  token_address :: pyval
  owner_address :: pyval
  twitter_handle :: pyval
  symbol :: pyval
  profile_pic_url :: pyval
  role :: ustr
  cluster :: ustr
  has_graduated :: pyval
  wallet_balance :: ustr
  enabled_chains :: ustr
  virtual_agent_id :: ustr
  is_virtual_agent :: pyval
  created_at :: pyval

record GlobalMetrics =
  scrape_time :: ustr
  total_agdp_latest :: pyval
  total_agents :: int

section \<open>The merger\<close>

text \<open>
  \<open>_parse_offerings\<close>: one Offering per raw entry of \<open>jobs_raw or []\<close>. An entry that is
  not a dict, or a truthy \<open>priceV2\<close> that is not a dict, raises AttributeError at \<open>.get\<close>.
\<close>

definition dumps_or_str :: "builtins \<Rightarrow> pyval \<Rightarrow> ustr" where
  "dumps_or_str B v = (case v of PDict kv \<Rightarrow> json_dumps B kv | _ \<Rightarrow> py_str B v)"

definition parse_offering :: "builtins \<Rightarrow> pyval \<Rightarrow> error + Offering" where
  "parse_offering B jv =
     (case jv of
        PDict j \<Rightarrow>
          (let req_str = dumps_or_str B (get_default j ''requirement'' (PDict []));
               dlv_str = dumps_or_str B (get_default j ''deliverable'' (PDict []));
               price_v2 = py_or (get_default j ''priceV2'' (PDict [])) (PDict [])
           in bindE (py_get_default price_v2 ''value'' (get_default j ''price'' (PInt 0))) (\<lambda>pv.
              bindE (py_get_default price_v2 ''type'' (PStr [])) (\<lambda>pt.
                Inr \<lparr> Offering.name = get_default j ''name'' (PStr []),
                      Offering.description = get_default j ''description'' (PStr []),
                      type = get_default j ''type'' (PStr []),
                      price = py_or pv (PInt 0),
                      price_type = pt,
                      sla_minutes = py_or (get_default j ''slaMinutes'' (PInt 0)) (PInt 0),
                      requires_funds = get_default j ''requiredFunds'' (PBool False),
                      requirement = (if req_str \<noteq> u ''{}'' then req_str else []),
                      deliverable = (if dlv_str \<noteq> u ''{}'' then dlv_str else []) \<rparr>)))
      | _ \<Rightarrow> Inl AttributeError)"

definition parse_offerings :: "builtins \<Rightarrow> pyval \<Rightarrow> error + Offering list" where
  "parse_offerings B jobs_raw =
     bindE (py_iter (py_or jobs_raw (PList []))) (mapE (parse_offering B))"

subsection \<open>The translation tables\<close>

definition CATEGORY_CN :: "(ustr \<times> ustr) list" where
  "CATEGORY_CN =
    [(u ''ON_CHAIN'', [38142, 19978, 25805, 20316]),
     (u ''INFORMATION'', [20449, 24687, 20998, 26512]),
     (u ''FUNCTIONAL'', [21151, 33021, 22411]),
     (u ''SOCIAL'', [31038, 20132]),
     (u ''CREATIVE'', [21019, 24847]),
     (u ''ENTERTAINMENT'', [23089, 20048]),
     (u ''DEFI'', [21435, 20013, 24515, 21270, 37329, 34701]),
     (u ''TRADING'', [20132, 26131]),
     (u ''GAMING'', [28216, 25103]),
     (u ''DATA'', [25968, 25454]),
     (u ''PRODUCTIVITY'', [29983, 20135, 21147]),
     (u ''UTILITY'', [23454, 29992, 24037, 20855]),
     (u ''NONE'', [26410, 20998, 31867]),
     ([], [26410, 20998, 31867])]"

definition ROLE_CN :: "(ustr \<times> ustr) list" where
  "ROLE_CN =
    [(u ''PROVIDER'', [26381, 21153, 25552, 20379, 32773]),
     (u ''HYBRID'', [28151, 21512, 22411]),
     (u ''CONSUMER'', [28040, 36153, 32773]),
     (u ''EVALUATOR'', [35780, 20272, 32773]),
     (u ''PRODUCTIVITY'', [29983, 20135, 21147]),
     ([], [26410, 25351, 23450])]"

definition CLUSTER_CN :: "(ustr \<times> ustr) list" where
  "CLUSTER_CN =
    [(u ''hedgefund'', [23545, 20914, 22522, 37329]),
     (u ''trading'', [20132, 26131]),
     (u ''defi'', [21435, 20013, 24515, 21270, 37329, 34701]),
     (u ''social'', [31038, 20132]),
     (u ''gaming'', [28216, 25103]),
     (u ''data'', [25968, 25454, 20998, 26512]),
     (u ''mediahouse'', [23186, 20307]),
     (u ''infrastructure'', [22522, 30784, 35774, 26045]),
     ([], [])]"

text \<open>\<open>TABLE.get(code, code)\<close>.\<close>

definition translate :: "(ustr \<times> ustr) list \<Rightarrow> ustr \<Rightarrow> ustr" where
  "translate table code = (case map_of table code of None \<Rightarrow> code | Some label \<Rightarrow> label)"

text \<open>The display values: \<open>ONLINE\<close> and \<open>OFFLINE\<close> for the status, \<open>ALWAYS_ONLINE\<close> for the
  sentinel text that replaces a timestamp of the year 2999.\<close>

definition ONLINE :: ustr where
  "ONLINE = [22312, 32447]"

definition OFFLINE :: ustr where
  "OFFLINE = [31163, 32447]"

definition ALWAYS_ONLINE :: ustr where
  "ALWAYS_ONLINE = [22987, 32456, 22312, 32447]"

subsection \<open>The values \<open>_merge_agent\<close> resolves before it builds the record\<close>

definition or_empty :: "pydict option \<Rightarrow> pydict" where
  "or_empty x = (case x of None \<Rightarrow> [] | Some kv \<Rightarrow> kv)"

definition chains_str :: "pydict \<Rightarrow> pydict \<Rightarrow> error + ustr" where
  "chains_str l d =
     (let chains = py_or (py_or (get l ''enabledChains'') (get d ''enabledChains'')) (PList [])
      in if truthy chains then
           bindE (py_iter chains) (\<lambda>cs.
           bindE (mapE (\<lambda>c. py_get_default c ''name'' (PStr [])) cs) (\<lambda>names.
             py_join (u '', '') names))
         else Inr [])"

definition last_active :: "pydict \<Rightarrow> pydict \<Rightarrow> pydict \<Rightarrow> pyval" where
  "last_active l m d =
     py_or (py_or (py_or (get m ''lastActiveAt'') (get d ''lastActiveAt''))
       (get l ''lastActiveAt'')) (PStr [])"

definition raw_category :: "builtins \<Rightarrow> pydict \<Rightarrow> pydict \<Rightarrow> ustr" where
  "raw_category B l d =
     strip (py_str B (py_or (py_or (get l ''category'') (get d ''category'')) (PStr [])))"

definition raw_role :: "builtins \<Rightarrow> pydict \<Rightarrow> pydict \<Rightarrow> ustr" where
  "raw_role B l d =
     strip (py_str B (py_or (py_or (get d ''role'') (get l ''role'')) (PStr [])))"

definition raw_cluster :: "builtins \<Rightarrow> pydict \<Rightarrow> pydict \<Rightarrow> ustr" where
  "raw_cluster B l d =
     (let c = strip (py_str B (py_or (py_or (get d ''cluster'') (get l ''cluster'')) (PStr [])))
      in if c = u ''None'' then [] else c)"

definition merged_volume :: "pydict \<Rightarrow> pydict \<Rightarrow> pyval" where
  "merged_volume l m =
     py_or (py_or (get m ''volume'') (get_default l ''grossAgenticAmount'' (PInt 0))) (PInt 0)"

definition merged_gross :: "pydict \<Rightarrow> pydict \<Rightarrow> pyval" where
  "merged_gross l m =
     py_or (py_or (get m ''grossAgenticAmount'') (get_default l ''grossAgenticAmount'' (PInt 0)))
       (PInt 0)"

definition raw_success_rate :: "pydict \<Rightarrow> pydict \<Rightarrow> pydict \<Rightarrow> pyval" where
  "raw_success_rate l m d =
     py_or (py_or (py_or (get m ''successRate'') (get d ''successRate''))
       (get_default l ''successRate'' (PInt 0))) (PInt 0)"

text \<open>\<open>min(max(float(raw), 0), 100)\<close>.\<close>

definition clamp_success_rate :: "builtins \<Rightarrow> pyval \<Rightarrow> error + pynum" where
  "clamp_success_rate B raw =
     bindE (py_float B raw) (\<lambda>f. Inr (py_min (py_max (NFloat f) (NInt 0)) (NInt 100)))"

subsection \<open>\<open>_merge_agent\<close>\<close>

text \<open>
  The call \<open>AgentData(...)\<close> of the return statement, given \<open>d\<close>, \<open>m\<close>, \<open>l\<close> and the
  values of the five steps that can raise.
\<close>

definition agent_record ::
  "builtins \<Rightarrow> int \<Rightarrow> pydict \<Rightarrow> pydict \<Rightarrow> pydict \<Rightarrow> pyval \<Rightarrow> pyval
     \<Rightarrow> ustr \<Rightarrow> bool \<Rightarrow> pyfloat \<Rightarrow> pynum \<Rightarrow> Offering list \<Rightarrow> AgentData" where
  "agent_record B rk l m d la aid cstr online gross sr offs =
     \<lparr> rank = rk,
      agent_id = aid,
      agent_link = u ''https://app.virtuals.io/acp/agent-details/'' @ py_str B aid,
      name = py_or (get l ''name'') (get_default d ''name'' (PStr [])),
      category = translate CATEGORY_CN (raw_category B l d),
      description =
        py_or (py_or (get d ''description'') (get l ''description'')) (PStr []),
      volume = merged_volume l m,
      gross_agdp = gross,
      revenue = py_or (get_default m ''revenue'' (PInt 0)) (PInt 0),
      success_rate = sr,
      rating = py_or (get l ''rating'') (get d ''rating''),
      total_jobs =
        py_or (py_or (py_or (get m ''successfulJobCount'') (get d ''transactionCount''))
          (get_default l ''transactionCount'' (PInt 0))) (PInt 0),
      successful_jobs =
        py_or (py_or (py_or (get m ''successfulJobCount'') (get d ''successfulJobCount''))
          (get_default l ''successfulJobCount'' (PInt 0))) (PInt 0),
      unique_active_wallets =
        py_or (py_or (py_or (get m ''uniqueBuyerCount'') (get d ''uniqueBuyerCount''))
          (get_default l ''uniqueBuyerCount'' (PInt 0))) (PInt 0),
      unique_buyers =
        py_or (py_or (py_or (get m ''uniqueBuyerCount'') (get d ''uniqueBuyerCount''))
          (get_default l ''uniqueBuyerCount'' (PInt 0))) (PInt 0),
      online_status = (if online then ONLINE else OFFLINE),
      last_active_at = (if \<not> online then la else PStr ALWAYS_ONLINE),
      transaction_count =
        py_or (py_or (get d ''transactionCount'')
          (get_default l ''transactionCount'' (PInt 0))) (PInt 0),
      offerings = offs,
      wallet_address =
        py_or (get d ''walletAddress'') (get_default l ''walletAddress'' (PStr [])),
      contract_address =
        py_or (get d ''contractAddress'') (get_default l ''contractAddress'' (PStr [])),
      token_address =
        py_or (get d ''tokenAddress'') (get_default l ''tokenAddress'' (PStr [])),
      owner_address =
        py_or (get d ''ownerAddress'') (get_default l ''ownerAddress'' (PStr [])),
      twitter_handle =
        py_or (py_or (get d ''twitterHandle'') (get l ''twitterHandle'')) (PStr []),
      symbol = py_or (py_or (get d ''symbol'') (get l ''symbol'')) (PStr []),
      profile_pic_url =
        py_or (get d ''profilePic'') (get_default l ''profilePic'' (PStr [])),
      role = translate ROLE_CN (raw_role B l d),
      cluster = translate CLUSTER_CN (raw_cluster B l d),
      has_graduated =
        py_or (get_default d ''hasGraduated'' (PBool False))
          (get_default l ''hasGraduated'' (PBool False)),
      wallet_balance =
        py_str B (py_or (py_or (get d ''walletBalance'') (get l ''walletBalance''))
          (PStr [])),
      enabled_chains = cstr,
      virtual_agent_id =
        py_str B (py_or (py_or (get d ''virtualAgentId'') (get l ''virtualAgentId''))
          (PStr [])),
      is_virtual_agent =
        py_or (get_default d ''isVirtualAgent'' (PBool False))
          (get_default l ''isVirtualAgent'' (PBool False)),
      created_at = py_or (py_or (get d ''createdAt'') (get l ''createdAt'')) (PStr [])
    \<rparr>"

text \<open>
  \<open>d = detail_data or {}\<close>, \<open>m = metrics_data or {}\<close>, \<open>l = list_data\<close>. The steps that
  can raise are taken in the order the source evaluates them: the chain names, the
  \<open>startswith\<close> test, then the keyword arguments \<open>gross_agdp\<close>, \<open>success_rate\<close> and
  \<open>offerings\<close>.
\<close>

definition merge_agent ::
  "builtins \<Rightarrow> int \<Rightarrow> pydict \<Rightarrow> pydict option \<Rightarrow> pydict option \<Rightarrow> error + AgentData" where
  "merge_agent B rk list_data metrics_data detail_data =
     (let d = or_empty detail_data; m = or_empty metrics_data; l = list_data;
          jobs_raw = py_or (py_or (get d ''jobs'') (get l ''offerings'')) (PList []);
          la = last_active l m d;
          aid = py_or (get l ''id'') (get_default d ''id'' (PInt 0))
      in
      bindE (chains_str l d) (\<lambda>cstr.
      bindE (py_startswith la (u ''2999'')) (\<lambda>online.
      bindE (fix_capped_agdp B (merged_gross l m) (merged_volume l m)) (\<lambda>gross.
      bindE (clamp_success_rate B (raw_success_rate l m d)) (\<lambda>sr.
      bindE (parse_offerings B jobs_raw) (\<lambda>offs.
        Inr (agent_record B rk l m d la aid cstr online gross sr offs)))))))"

section \<open>The fetcher\<close>

text \<open>
  One attempt of \<open>_get\<close> either gets a response (its status, and its parsed JSON body,
  \<open>None\<close> when \<open>resp.json()\<close> raises) or raises (network error, timeout). The upstream is
  a function from the attempt index to what that attempt meets.
\<close>

datatype attempt_result = Response int "pyval option" | Raised

text \<open>The events of a call that the caller can observe: requests and back-off sleeps.\<close>

datatype io = Request nat | Sleep nat

text \<open>An attempt ends the loop only with status 200 and a body that parses.\<close>

fun returned_body :: "attempt_result \<Rightarrow> pyval option" where
  "returned_body (Response status (Some body)) = (if status = 200 then Some body else None)"
| "returned_body (Response status None) = None"
| "returned_body Raised = None"

text \<open>
  \<^verbatim>\<open>
  for attempt in range(self.max_retries):
      try:
          async with self.session.get(url, ...) as resp:
              if resp.status == 200:
                  return await resp.json()
              logger.warning(...)
      except Exception as e:
          logger.warning(...)
      if attempt < self.max_retries - 1:
          await asyncio.sleep(2 ** attempt)
  return None
  \<close>
  The result type has no error: every exception of an attempt is caught inside the loop.
\<close>

fun get_loop :: "int \<Rightarrow> (nat \<Rightarrow> attempt_result) \<Rightarrow> nat list \<Rightarrow> pyval \<times> io list" where
  "get_loop max_retries upstream [] = (PNone, [])"
| "get_loop max_retries upstream (attempt # rest) =
     (case returned_body (upstream attempt) of
        Some body \<Rightarrow> (body, [Request attempt])
      | None \<Rightarrow>
          (let pause = (if int attempt < max_retries - 1 then [Sleep (2 ^ attempt)] else []);
               r = get_loop max_retries upstream rest
           in (fst r, Request attempt # pause @ snd r)))"

definition ACPScraper_get :: "int \<Rightarrow> (nat \<Rightarrow> attempt_result) \<Rightarrow> pyval \<times> io list" where
  "ACPScraper_get max_retries upstream = get_loop max_retries upstream [0..<nat max_retries]"

text \<open>
  \<open>if result and "data" in result: return result["data"]\<close>, else the default. On a truthy
  value that is no dict, \<open>in\<close> or the subscript raises TypeError.
\<close>

definition contains :: "ustr \<Rightarrow> ustr \<Rightarrow> bool" where
  "contains s p = list_ex (\<lambda>i. take (length p) (drop i s) = p) [0..<Suc (length s)]"

definition data_of :: "pyval \<Rightarrow> pyval \<Rightarrow> error + pyval" where
  "data_of result dflt =
     (if \<not> truthy result then Inr dflt
      else case result of
        PDict kv \<Rightarrow> (case map_of kv (u ''data'') of None \<Rightarrow> Inr dflt | Some v \<Rightarrow> Inr v)
      | PList xs \<Rightarrow> if PStr (u ''data'') \<in> set xs then Inl TypeError else Inr dflt
      | PStr s \<Rightarrow> if contains s (u ''data'') then Inl TypeError else Inr dflt
      | _ \<Rightarrow> Inl TypeError)"

section \<open>The pagination walker\<close>

text \<open>The leaderboard upstream: what attempt \<open>k\<close> of the request for a page meets.\<close>

definition fetch_metrics_leaderboard ::
  "int \<Rightarrow> (int \<Rightarrow> nat \<Rightarrow> attempt_result) \<Rightarrow> int \<Rightarrow> error + pyval" where
  "fetch_metrics_leaderboard max_retries upstream page =
     data_of (fst (ACPScraper_get max_retries (upstream page))) (PList [])"

definition page_size :: int where
  "page_size = 100"

text \<open>
  \<^verbatim>\<open>
  while True:
      batch = await self.fetch_metrics_leaderboard(page, page_size)
      if not batch:
          break
      all_agents.extend(batch)
      if len(batch) < page_size:
          break
      page += 1
      await asyncio.sleep(self.delay)
  return all_agents
  \<close>
  The loop has no bound on the page number, so it is a partial function: \<open>None\<close> is a walk
  that never ends. The result carries, next to \<open>all_agents\<close>, the number of the last page
  requested.
\<close>

partial_function (option) walk_pages ::
  "(int \<Rightarrow> error + pyval) \<Rightarrow> int \<Rightarrow> pyval list \<Rightarrow> (error + pyval list \<times> int) option" where
  "walk_pages fetch page all_agents =
     (case fetch page of
        Inl e \<Rightarrow> Some (Inl e)
      | Inr batch \<Rightarrow>
          if \<not> truthy batch then Some (Inr (all_agents, page))
          else (case py_iter batch of
                  Inl e \<Rightarrow> Some (Inl e)
                | Inr items \<Rightarrow>
                    if int (length items) < page_size
                    then Some (Inr (all_agents @ items, page))
                    else walk_pages fetch (page + 1) (all_agents @ items)))"

definition fetch_all_metrics_pages ::
  "int \<Rightarrow> (int \<Rightarrow> nat \<Rightarrow> attempt_result) \<Rightarrow> (error + pyval list \<times> int) option" where
  "fetch_all_metrics_pages max_retries upstream =
     walk_pages (fetch_metrics_leaderboard max_retries upstream) 1 []"

section \<open>Configuration\<close>

text \<open>
  \<^verbatim>\<open>
  def load_config(path: str = "config.yaml") -> dict:
      try:
          with open(path, "r", encoding="utf-8") as f:
              return yaml.safe_load(f) or {}
      except FileNotFoundError:
          return {}
  \<close>
  The file system and the YAML library are parameters: \<open>opened\<close> is what \<open>open\<close> gives
  (the file's text, or the exception it raises: FileNotFoundError for a missing file),
  \<open>safe_load\<close> is \<open>yaml.safe_load\<close> (the document's value, \<open>None\<close> for an empty file, or
  YAMLError for text that is not well-formed YAML). The handler catches
  FileNotFoundError and nothing else.
\<close>

definition load_config :: "error + ustr \<Rightarrow> (ustr \<Rightarrow> error + pyval) \<Rightarrow> error + pyval" where
  "load_config opened safe_load =
     (case bindE opened (\<lambda>f. bindE (safe_load f) (\<lambda>v. Inr (py_or v (PDict [])))) of
        Inl FileNotFoundError \<Rightarrow> Inr (PDict [])
      | r \<Rightarrow> r)"

section \<open>The orchestrator\<close>

text \<open>
  \<open>scrape_all\<close> from line 271 on: the results of the awaited fetches are its input, typed
  as the fetch functions annotate them (lists of dicts, optional dicts); what the dicts
  hold is arbitrary JSON. A per-agent task of \<open>asyncio.gather\<close> either raised or returned
  its detail and metrics.
\<close>

datatype task_result = TaskRaised | TaskReturned "pydict option" "pydict option"

record fetched =
  global_metrics :: GlobalMetrics
  agents_list :: "pydict list"
  metrics_list :: "pydict list"
  results :: "int \<Rightarrow> task_result"

text \<open>
  \<open>a["id"]\<close> as a dict key: KeyError when the record has no id. Ids are the ints the
  source annotates (\<open>Dict[int, dict]\<close>); any other value is outside this model.
\<close>

definition id_of :: "pydict \<Rightarrow> error + int" where
  "id_of a = (case map_of a (u ''id'') of
                None \<Rightarrow> Inl KeyError
              | Some (PInt i) \<Rightarrow> Inr i
              | Some v \<Rightarrow> Inl Unmodelled)"

text \<open>\<open>{a["id"]: a for a in records}\<close>, given the ids: a later record replaces an earlier one.\<close>

definition dict_by_id :: "int list \<Rightarrow> pydict list \<Rightarrow> (int \<rightharpoonup> pydict)" where
  "dict_by_id ids records = fold (\<lambda>(i, a) mp. mp(i \<mapsto> a)) (zip ids records) Map.empty"

text \<open>\<open>detail_map\<close> and \<open>ind_metrics_map\<close>: a task's value is kept only when it is truthy.\<close>

definition detail_map :: "fetched \<Rightarrow> (int \<rightharpoonup> pydict)" where
  "detail_map F aid =
     (case results F aid of
        TaskRaised \<Rightarrow> None
      | TaskReturned detail ind_metrics \<Rightarrow>
          (case detail of None \<Rightarrow> None | Some x \<Rightarrow> if x \<noteq> [] then Some x else None))"

definition ind_metrics_map :: "fetched \<Rightarrow> (int \<rightharpoonup> pydict)" where
  "ind_metrics_map F aid =
     (case results F aid of
        TaskRaised \<Rightarrow> None
      | TaskReturned detail ind_metrics \<Rightarrow>
          (case ind_metrics of None \<Rightarrow> None | Some x \<Rightarrow> if x \<noteq> [] then Some x else None))"

text \<open>
  The sort key of line 306:
  \<^verbatim>\<open>ind_metrics_map.get(x, {}).get("volume", 0) or metrics_map.get(x, {}).get("volume", 0) or 0\<close>
\<close>

definition volume_key :: "(int \<rightharpoonup> pydict) \<Rightarrow> (int \<rightharpoonup> pydict) \<Rightarrow> int \<Rightarrow> pyval" where
  "volume_key ind_metrics metrics_map x =
     py_or (py_or (get_default (or_empty (ind_metrics x)) ''volume'' (PInt 0))
                  (get_default (or_empty (metrics_map x)) ''volume'' (PInt 0)))
           (PInt 0)"

subsection \<open>Comparison and sorting\<close>

text \<open>
  \<open>a < b\<close>. Ints, bools and floats compare by their exact values (every comparison with
  NaN is false), strings by code points; two lists go to the library; every other pair
  raises TypeError.
\<close>

fun py_num :: "pyval \<Rightarrow> pyfloat option" where
  "py_num (PInt i) = Some (Finite (real_of_int i))"
| "py_num (PBool b) = Some (Finite (if b then 1 else 0))"
| "py_num (PFloat f) = Some f"
| "py_num v = None"

definition py_lt :: "builtins \<Rightarrow> pyval \<Rightarrow> pyval \<Rightarrow> error + bool" where
  "py_lt B a b =
     (case (py_num a, py_num b) of
        (Some x, Some y) \<Rightarrow> Inr (float_lt x y)
      | _ \<Rightarrow>
        (case (a, b) of
           (PStr s, PStr t) \<Rightarrow> Inr (s < t)
         | (PList xs, PList ys) \<Rightarrow> lt_list B xs ys
         | _ \<Rightarrow> Inl TypeError))"

text \<open>
  \<open>list.sort\<close> on fewer than 64 elements, as CPython 3.11 runs it on the keys with
  their elements: no comparison below two elements; else \<open>count_run\<close> takes the longest
  run at the front (strictly descending if the second key is less than the first, and
  then reversed; otherwise not descending), and \<open>binarysort\<close> inserts each later element
  into the sorted front at the place a binary search finds. A comparison that raises
  ends the sort with its exception.
\<close>

fun run_more :: "('k \<Rightarrow> 'k \<Rightarrow> error + bool) \<Rightarrow> bool \<Rightarrow> ('k \<times> 'v) list \<Rightarrow> error + nat" where
  "run_more lt descending (a # b # rest) =
     (case lt (fst b) (fst a) of
        Inl e \<Rightarrow> Inl e
      | Inr c \<Rightarrow>
          if c = descending
          then (case run_more lt descending (b # rest) of
                  Inl e \<Rightarrow> Inl e
                | Inr n \<Rightarrow> Inr (Suc n))
          else Inr 0)"
| "run_more lt descending ps = Inr 0"

definition count_run ::
  "('k \<Rightarrow> 'k \<Rightarrow> error + bool) \<Rightarrow> ('k \<times> 'v) list \<Rightarrow> error + nat \<times> bool" where
  "count_run lt ps =
     (case ps of
        a # b # rest \<Rightarrow>
          bindE (lt (fst b) (fst a)) (\<lambda>descending.
          bindE (run_more lt descending (b # rest)) (\<lambda>n.
            Inr (2 + n, descending)))
      | _ \<Rightarrow> Inr (length ps, False))"

function bsearch ::
  "('k \<Rightarrow> 'k \<Rightarrow> error + bool) \<Rightarrow> 'k \<Rightarrow> ('k \<times> 'v) list \<Rightarrow> nat \<Rightarrow> nat \<Rightarrow> error + nat" where
  "bsearch lt pivot a l r =
     (if l < r
      then (case lt pivot (fst (a ! (l + (r - l) div 2))) of
              Inl e \<Rightarrow> Inl e
            | Inr c \<Rightarrow>
                if c then bsearch lt pivot a l (l + (r - l) div 2)
                else bsearch lt pivot a (l + (r - l) div 2 + 1) r)
      else Inr l)"
  by pat_completeness auto
termination
  by (relation "measure (\<lambda>(lt, pivot, a, l, r). r - l)") auto

fun binarysort ::
  "('k \<Rightarrow> 'k \<Rightarrow> error + bool) \<Rightarrow> ('k \<times> 'v) list \<Rightarrow> ('k \<times> 'v) list \<Rightarrow> error + ('k \<times> 'v) list" where
  "binarysort lt front [] = Inr front"
| "binarysort lt front (p # rest) =
     (case bsearch lt (fst p) front 0 (length front) of
        Inl e \<Rightarrow> Inl e
      | Inr l \<Rightarrow> binarysort lt (take l front @ p # drop l front) rest)"

definition sort_short ::
  "('k \<Rightarrow> 'k \<Rightarrow> error + bool) \<Rightarrow> ('k \<times> 'v) list \<Rightarrow> error + ('k \<times> 'v) list" where
  "sort_short lt ps =
     (if length ps < 2 then Inr ps
      else bindE (count_run lt ps) (\<lambda>(n, descending).
             binarysort lt (if descending then rev (take n ps) else take n ps) (drop n ps)))"

text \<open>
  The keys that \<open><\<close> orders totally: numbers other than NaN, mapped to a pair that
  orders them as Python does (the first component tells the infinities from the finite
  values), or strings.
\<close>

fun num_ord :: "pyval \<Rightarrow> (int \<times> real) option" where
  "num_ord (PInt i) = Some (0, real_of_int i)"
| "num_ord (PBool b) = Some (0, if b then 1 else 0)"
| "num_ord (PFloat (Finite r)) = Some (0, r)"
| "num_ord (PFloat PosInf) = Some (1, 0)"
| "num_ord (PFloat NegInf) = Some (- 1, 0)"
| "num_ord v = None"

definition num_val :: "pyval \<Rightarrow> int \<times> real" where
  "num_val v = (case num_ord v of None \<Rightarrow> (0, 0) | Some p \<Rightarrow> p)"

fun is_str :: "pyval \<Rightarrow> bool" where
  "is_str (PStr s) = True"
| "is_str v = False"

fun str_val :: "pyval \<Rightarrow> ustr" where
  "str_val (PStr s) = s"
| "str_val v = []"

text \<open>
  \<open>sorted(xs, key=key, reverse=True)\<close>. The keys are computed, keys and elements are
  reversed, sorted ascending and reversed again. Where \<open><\<close> orders the keys totally (all
  of them numbers other than NaN, or all of them strings), the ascending sort is the
  stable sort that Python documents, whatever the length. On other keys (a NaN, mixed
  types, lists) it is the steps above for fewer than 64 elements, and the library
  parameter for longer lists.
\<close>

definition sorted_reverse :: "builtins \<Rightarrow> (int \<Rightarrow> pyval) \<Rightarrow> int list \<Rightarrow> error + int list" where
  "sorted_reverse B key xs =
     (if list_all (\<lambda>x. num_ord (key x) \<noteq> None) xs
      then Inr (rev (sort_key (\<lambda>x. num_val (key x)) (rev xs)))
      else if list_all (\<lambda>x. is_str (key x)) xs
      then Inr (rev (sort_key (\<lambda>x. str_val (key x)) (rev xs)))
      else if length xs < 64
      then bindE (sort_short (py_lt B) (rev (map (\<lambda>x. (key x, x)) xs))) (\<lambda>ps.
             Inr (rev (map snd ps)))
      else sort_long B (map (\<lambda>x. (key x, x)) xs))"

text \<open>\<open>ind_metrics_map.get(aid) or metrics_map.get(aid)\<close>.\<close>

definition merged_metrics :: "(int \<rightharpoonup> pydict) \<Rightarrow> (int \<rightharpoonup> pydict) \<Rightarrow> int \<Rightarrow> pydict option" where
  "merged_metrics ind_metrics metrics_map aid =
     (case ind_metrics aid of
        None \<Rightarrow> metrics_map aid
      | Some x \<Rightarrow> if x \<noteq> [] then Some x else metrics_map aid)"

text \<open>\<open>agents_map.get(aid, {"id": aid})\<close>.\<close>

definition list_entry :: "(int \<rightharpoonup> pydict) \<Rightarrow> int \<Rightarrow> pydict" where
  "list_entry agents_map aid =
     (case agents_map aid of None \<Rightarrow> [(u ''id'', PInt aid)] | Some e \<Rightarrow> e)"

text \<open>
  The loop \<open>for rank, aid in enumerate(sorted_ids, 1)\<close>; it stops at the first merge that
  raises.
\<close>

fun merge_ranked ::
  "builtins \<Rightarrow> (int \<rightharpoonup> pydict) \<Rightarrow> (int \<Rightarrow> pydict option) \<Rightarrow> (int \<rightharpoonup> pydict)
     \<Rightarrow> int \<Rightarrow> int list \<Rightarrow> error + AgentData list" where
  "merge_ranked B agents_map metrics_for details rk [] = Inr []"
| "merge_ranked B agents_map metrics_for details rk (aid # rest) =
     bindE (merge_agent B rk (list_entry agents_map aid) (metrics_for aid) (details aid))
       (\<lambda>agent.
     bindE (merge_ranked B agents_map metrics_for details (rk + 1) rest) (\<lambda>agents.
       Inr (agent # agents)))"

text \<open>\<open>all_ids = sorted(set(list(agents_map.keys()) + list(metrics_map.keys())))\<close>.\<close>

definition all_ids :: "fetched \<Rightarrow> error + int list" where
  "all_ids F =
     bindE (mapE id_of (metrics_list F)) (\<lambda>mids.
     bindE (mapE id_of (agents_list F)) (\<lambda>aids.
       Inr (sort (remdups (aids @ mids)))))"

definition metrics_map :: "fetched \<Rightarrow> error + (int \<rightharpoonup> pydict)" where
  "metrics_map F =
     bindE (mapE id_of (metrics_list F)) (\<lambda>mids. Inr (dict_by_id mids (metrics_list F)))"

definition agents_map :: "fetched \<Rightarrow> error + (int \<rightharpoonup> pydict)" where
  "agents_map F =
     bindE (mapE id_of (agents_list F)) (\<lambda>aids. Inr (dict_by_id aids (agents_list F)))"

definition sorted_ids :: "builtins \<Rightarrow> fetched \<Rightarrow> error + int list" where
  "sorted_ids B F =
     bindE (metrics_map F) (\<lambda>mm.
     bindE (all_ids F) (\<lambda>ids.
       sorted_reverse B (volume_key (ind_metrics_map F) mm) ids))"

definition scrape_all :: "builtins \<Rightarrow> fetched \<Rightarrow> error + AgentData list \<times> GlobalMetrics" where
  "scrape_all B F =
     bindE (metrics_map F) (\<lambda>mm.
     bindE (agents_map F) (\<lambda>am.
     bindE (all_ids F) (\<lambda>ids.
     bindE (sorted_ids B F) (\<lambda>sids.
     bindE (merge_ranked B am (merged_metrics (ind_metrics_map F) mm) (detail_map F) 1 sids)
       (\<lambda>agent_data_list.
         Inr (agent_data_list,
              (global_metrics F)\<lparr> total_agents := int (length ids) \<rparr>))))))"

section \<open>Specification predicates\<close>

text \<open>A number lies in the closed interval from 0 to 100.\<close>

definition in_percent_range :: "pynum \<Rightarrow> bool" where
  "in_percent_range n =
     (float_le (Finite 0) (num_float n) \<and> float_le (num_float n) (Finite 100))"

text \<open>
  The claim that the output is ordered by descending merged volume: every earlier record
  has a volume at or above every later one's, both read as numbers.
\<close>

fun key_num :: "pyval \<Rightarrow> real option" where
  "key_num (PInt i) = Some (real_of_int i)"
| "key_num (PBool b) = Some (if b then 1 else 0)"
| "key_num (PFloat (Finite r)) = Some r"
| "key_num v = None"

definition val_le :: "pyval \<Rightarrow> pyval \<Rightarrow> bool" where
  "val_le a b = (case (key_num a, key_num b) of (Some x, Some y) \<Rightarrow> x \<le> y | _ \<Rightarrow> False)"

definition ordered_by_volume :: "AgentData list \<Rightarrow> bool" where
  "ordered_by_volume out = sorted_wrt (\<lambda>a b. val_le (volume b) (volume a)) out"

text \<open>
  The claim that records of equal volume come in ascending order of agent id. (In the
  runs it is evaluated on, each record's merged volume is its ranking key.)
\<close>

definition id_less :: "pyval \<Rightarrow> pyval \<Rightarrow> bool" where
  "id_less a b = (case (a, b) of (PInt i, PInt j) \<Rightarrow> i < j | _ \<Rightarrow> False)"

definition ties_by_id :: "AgentData list \<Rightarrow> bool" where
  "ties_by_id out =
     sorted_wrt (\<lambda>a b. volume a = volume b \<longrightarrow> id_less (agent_id a) (agent_id b)) out"

text \<open>
  The ranking keys of a run are ordered totally by \<open><\<close>: all of them are numbers other
  than NaN, or all of them are strings, or there are fewer than two of them.
\<close>

definition total_keys :: "(int \<Rightarrow> pyval) \<Rightarrow> int list \<Rightarrow> bool" where
  "total_keys key xs =
     (list_all (\<lambda>x. num_ord (key x) \<noteq> None) xs \<or> list_all (\<lambda>x. is_str (key x)) xs
      \<or> length xs < 2)"

definition ordered_keys :: "fetched \<Rightarrow> bool" where
  "ordered_keys F =
     (case (metrics_map F, all_ids F) of
        (Inr mm, Inr ids) \<Rightarrow> total_keys (volume_key (ind_metrics_map F) mm) ids
      | _ \<Rightarrow> False)"

text \<open>Rank, agent id and merged volume of each output record, in output order.\<close>

definition ranking :: "AgentData list \<Rightarrow> (int \<times> pyval \<times> pyval) list" where
  "ranking out = map (\<lambda>a. (rank a, agent_id a, volume a)) out"

section \<open>Concrete runs\<close>

text \<open>
  In the concrete runs of this development no value reaches the library parameters, so
  the result does not depend on them; this instance fills the argument.
\<close>

definition unused_builtins :: builtins where
  "unused_builtins =
     \<lparr> float_of_str = (\<lambda>s. None), repr_of = (\<lambda>v. []), json_dumps = (\<lambda>kv. []),
       lt_list = (\<lambda>xs ys. Inl TypeError), sort_long = (\<lambda>ps. Inl TypeError) \<rparr>"

text \<open>\<open>GlobalMetrics()\<close> with the dataclass defaults, for runs whose global metrics do not matter.\<close>

definition no_metrics :: GlobalMetrics where
  "no_metrics = \<lparr> scrape_time = [], total_agdp_latest = PFloat (Finite 0), total_agents = 0 \<rparr>"

section \<open>Properties\<close>

subsection \<open>What a successful merge returns\<close>

lemma bindE_Inr:
  "bindE m f = Inr y \<Longrightarrow> \<exists>x. m = Inr x \<and> f x = Inr y"
  by (cases m) (simp_all add: bindE_def)

lemma merge_agent_Inr:
  assumes "merge_agent B r l md dd = Inr a"
  shows "\<exists>cstr online gross sr offs.
     py_startswith (last_active l (or_empty md) (or_empty dd)) (u ''2999'') = Inr online
   \<and> fix_capped_agdp B (merged_gross l (or_empty md)) (merged_volume l (or_empty md))
       = Inr gross
   \<and> clamp_success_rate B (raw_success_rate l (or_empty md) (or_empty dd)) = Inr sr
   \<and> a = agent_record B r l (or_empty md) (or_empty dd)
         (last_active l (or_empty md) (or_empty dd))
         (py_or (get l ''id'') (get_default (or_empty dd) ''id'' (PInt 0)))
         cstr online gross sr offs"
  using assms unfolding merge_agent_def Let_def
  by (fastforce dest!: bindE_Inr)

lemmas value_defs = get_def get_default_def py_or_def u_def or_empty_def

lemmas merge_steps = merge_agent_def chains_str_def last_active_def merged_gross_def
  merged_volume_def raw_success_rate_def clamp_success_rate_def parse_offerings_def
  fix_capped_agdp_def bindE_def startswith_def float_of_int_def float_ge_def float_gt_def
  float_le_def AGDP_CAP_def py_max_def py_min_def num_lt_def Let_def

lemma agent_record_sel:
  "rank (agent_record B rk l m d la aid cstr online gross sr offs) = rk"
  "agent_id (agent_record B rk l m d la aid cstr online gross sr offs) = aid"
  "volume (agent_record B rk l m d la aid cstr online gross sr offs) = merged_volume l m"
  "gross_agdp (agent_record B rk l m d la aid cstr online gross sr offs) = gross"
  "revenue (agent_record B rk l m d la aid cstr online gross sr offs)
     = py_or (get_default m ''revenue'' (PInt 0)) (PInt 0)"
  "success_rate (agent_record B rk l m d la aid cstr online gross sr offs) = sr"
  "online_status (agent_record B rk l m d la aid cstr online gross sr offs)
     = (if online then ONLINE else OFFLINE)"
  "last_active_at (agent_record B rk l m d la aid cstr online gross sr offs)
     = (if \<not> online then la else PStr ALWAYS_ONLINE)"
  "category (agent_record B rk l m d la aid cstr online gross sr offs)
     = translate CATEGORY_CN (raw_category B l d)"
  "role (agent_record B rk l m d la aid cstr online gross sr offs)
     = translate ROLE_CN (raw_role B l d)"
  "cluster (agent_record B rk l m d la aid cstr online gross sr offs)
     = translate CLUSTER_CN (raw_cluster B l d)"
  "total_jobs (agent_record B rk l m d la aid cstr online gross sr offs)
     = py_or (py_or (py_or (get m ''successfulJobCount'') (get d ''transactionCount''))
         (get_default l ''transactionCount'' (PInt 0))) (PInt 0)"
  "successful_jobs (agent_record B rk l m d la aid cstr online gross sr offs)
     = py_or (py_or (py_or (get m ''successfulJobCount'') (get d ''successfulJobCount''))
         (get_default l ''successfulJobCount'' (PInt 0))) (PInt 0)"
  "unique_active_wallets (agent_record B rk l m d la aid cstr online gross sr offs)
     = py_or (py_or (py_or (get m ''uniqueBuyerCount'') (get d ''uniqueBuyerCount''))
         (get_default l ''uniqueBuyerCount'' (PInt 0))) (PInt 0)"
  "unique_buyers (agent_record B rk l m d la aid cstr online gross sr offs)
     = py_or (py_or (py_or (get m ''uniqueBuyerCount'') (get d ''uniqueBuyerCount''))
         (get_default l ''uniqueBuyerCount'' (PInt 0))) (PInt 0)"
  by (simp_all add: agent_record_def)

lemma py_startswith_Inr:
  "py_startswith v p = Inr b \<Longrightarrow> \<exists>s. v = PStr s \<and> b = startswith s p"
  by (cases v) simp_all

subsection \<open>The gross-value correction\<close>

text \<open>
  C1. For all floats \<open>g\<close> and \<open>v\<close> given to the gross-value correction: when \<open>g\<close> is at
  or above the cap and \<open>v\<close> is above the cap, the corrected value is \<open>v\<close>; in every other
  case it is \<open>g\<close>, unchanged. This covers the infinities and NaN, whose comparisons are
  all false.
\<close>

theorem fix_capped_agdp_spec:
  "fix_capped_agdp B (PFloat g) (PFloat v) =
     Inr (if float_ge g AGDP_CAP \<and> float_gt v AGDP_CAP then v else g)"
  by (simp add: fix_capped_agdp_def bindE_def)

subsection \<open>The success rate\<close>

lemma clamp_in_range:
  assumes "clamp_success_rate B raw = Inr sr" "sr \<noteq> NFloat NaN"
  shows "in_percent_range sr"
proof -
  from assms(1) obtain f where f: "py_float B raw = Inr f"
    and sr: "sr = py_min (py_max (NFloat f) (NInt 0)) (NInt 100)"
    unfolding clamp_success_rate_def by (auto dest!: bindE_Inr)
  show ?thesis
    using assms(2) unfolding sr
    by (cases f) (auto simp: py_min_def py_max_def num_lt_def in_percent_range_def float_le_def)
qed

text \<open>Whatever the three records hold, a merged success rate other than NaN is in [0, 100].\<close>

lemma merge_agent_success_rate_in_range:
  assumes "merge_agent B r l md dd = Inr a" "success_rate a \<noteq> NFloat NaN"
  shows "in_percent_range (success_rate a)"
proof -
  from merge_agent_Inr [OF assms(1)] obtain cstr online gross sr offs where
    c: "clamp_success_rate B (raw_success_rate l (or_empty md) (or_empty dd)) = Inr sr"
    and a: "a = agent_record B r l (or_empty md) (or_empty dd)
         (last_active l (or_empty md) (or_empty dd))
         (py_or (get l ''id'') (get_default (or_empty dd) ''id'' (PInt 0)))
         cstr online gross sr offs"
    by blast
  have "success_rate a = sr" by (simp add: a agent_record_sel)
  with clamp_in_range [OF c] assms(2) show ?thesis by simp
qed

text \<open>
  C2. The merged success rate is meant to lie in [0, 100] for every input. A metrics
  record whose \<open>successRate\<close> is NaN (which \<open>json.loads\<close> reads from the literal \<open>NaN\<close>)
  passes through the clamp: \<open>max(nan, 0)\<close> keeps its first argument because \<open>0 > nan\<close> is
  false, and \<open>min(nan, 100)\<close> keeps it because \<open>100 < nan\<close> is false. The merged success
  rate is then NaN, which is not in [0, 100].
\<close>

theorem success_rate_nan_not_clamped:
  "map_sum id success_rate
     (merge_agent unused_builtins 1 [(u ''id'', PInt 1)]
        (Some [(u ''id'', PInt 1), (u ''successRate'', PFloat NaN)]) None)
   = Inr (NFloat NaN) \<and> \<not> in_percent_range (NFloat NaN)"
  by (simp add: merge_steps value_defs agent_record_sel in_percent_range_def)

subsection \<open>Online status\<close>

text \<open>
  C7. Whenever the merge returns, the resolved last-active value is a string. If it
  begins with \<open>2999\<close>, the status is the online display value and the last-active field
  is the always-online text instead of the timestamp; otherwise (the empty string of a
  missing timestamp included) the status is the offline display value and the field is
  the timestamp as it is.
\<close>

theorem merge_agent_online_status:
  assumes "merge_agent B r l md dd = Inr a"
  shows "\<exists>s. last_active l (or_empty md) (or_empty dd) = PStr s
     \<and> (if startswith s (u ''2999'')
        then online_status a = ONLINE \<and> last_active_at a = PStr ALWAYS_ONLINE
        else online_status a = OFFLINE \<and> last_active_at a = PStr s)"
proof -
  from merge_agent_Inr [OF assms] obtain cstr online gross sr offs where
    st: "py_startswith (last_active l (or_empty md) (or_empty dd)) (u ''2999'') = Inr online"
    and a: "a = agent_record B r l (or_empty md) (or_empty dd)
         (last_active l (or_empty md) (or_empty dd))
         (py_or (get l ''id'') (get_default (or_empty dd) ''id'' (PInt 0)))
         cstr online gross sr offs"
    by blast
  from py_startswith_Inr [OF st] obtain s where
    s: "last_active l (or_empty md) (or_empty dd) = PStr s" "online = startswith s (u ''2999'')"
    by blast
  show ?thesis
    by (rule exI [of _ s]) (simp add: a s agent_record_sel)
qed

theorem merge_agent_online_status_witness:
  "\<exists>a. merge_agent unused_builtins 1 [(u ''id'', PInt 1)]
          (Some [(u ''lastActiveAt'', PStr (u ''2999-12-31T00:00:00.000Z''))]) None = Inr a
      \<and> online_status a = ONLINE \<and> last_active_at a = PStr ALWAYS_ONLINE"
proof -
  have "\<exists>a. merge_agent unused_builtins 1 [(u ''id'', PInt 1)]
          (Some [(u ''lastActiveAt'', PStr (u ''2999-12-31T00:00:00.000Z''))]) None = Inr a"
    by (simp add: merge_steps value_defs)
  then obtain a where run: "merge_agent unused_builtins 1 [(u ''id'', PInt 1)]
          (Some [(u ''lastActiveAt'', PStr (u ''2999-12-31T00:00:00.000Z''))]) None = Inr a" ..
  from merge_agent_online_status [OF run] have
    "online_status a = ONLINE \<and> last_active_at a = PStr ALWAYS_ONLINE"
    by (simp add: last_active_def value_defs startswith_def)
  with run show ?thesis by blast
qed

subsection \<open>Category, role and cluster\<close>

text \<open>
  C8. Whenever the merge returns, each of category, role and cluster is translated from
  the code the merge resolves for it (the first truthy source value as a string,
  stripped; for the cluster, the text \<open>None\<close> counts as the empty code): a code that is a
  key of the field's table gives that table's label, a code that is not a key passes
  through unchanged.
\<close>

theorem merge_agent_translation:
  assumes "merge_agent B r l md dd = Inr a"
  shows "(case map_of CATEGORY_CN (raw_category B l (or_empty dd)) of
            Some label \<Rightarrow> category a = label
          | None \<Rightarrow> category a = raw_category B l (or_empty dd))
       \<and> (case map_of ROLE_CN (raw_role B l (or_empty dd)) of
            Some label \<Rightarrow> role a = label
          | None \<Rightarrow> role a = raw_role B l (or_empty dd))
       \<and> (case map_of CLUSTER_CN (raw_cluster B l (or_empty dd)) of
            Some label \<Rightarrow> cluster a = label
          | None \<Rightarrow> cluster a = raw_cluster B l (or_empty dd))"
proof -
  from merge_agent_Inr [OF assms] obtain cstr online gross sr offs where
    a: "a = agent_record B r l (or_empty md) (or_empty dd)
         (last_active l (or_empty md) (or_empty dd))
         (py_or (get l ''id'') (get_default (or_empty dd) ''id'' (PInt 0)))
         cstr online gross sr offs"
    by blast
  show ?thesis
    by (simp add: a agent_record_sel translate_def split: option.split)
qed

theorem merge_agent_translation_witness:
  "\<exists>a. merge_agent unused_builtins 1
          [(u ''id'', PInt 1), (u ''category'', PStr (u ''UNKNOWN_X'')),
           (u ''role'', PStr (u ''PROVIDER'')), (u ''cluster'', PStr (u ''defi''))]
          None None = Inr a
      \<and> category a = u ''UNKNOWN_X''
      \<and> role a = [26381, 21153, 25552, 20379, 32773]
      \<and> cluster a = [21435, 20013, 24515, 21270, 37329, 34701]"
proof -
  have "\<exists>a. merge_agent unused_builtins 1
          [(u ''id'', PInt 1), (u ''category'', PStr (u ''UNKNOWN_X'')),
           (u ''role'', PStr (u ''PROVIDER'')), (u ''cluster'', PStr (u ''defi''))]
          None None = Inr a"
    by (simp add: merge_steps value_defs)
  then obtain a where run: "merge_agent unused_builtins 1
          [(u ''id'', PInt 1), (u ''category'', PStr (u ''UNKNOWN_X'')),
           (u ''role'', PStr (u ''PROVIDER'')), (u ''cluster'', PStr (u ''defi''))]
          None None = Inr a" ..
  from merge_agent_translation [OF run] have
    "category a = u ''UNKNOWN_X''
      \<and> role a = [26381, 21153, 25552, 20379, 32773]
      \<and> cluster a = [21435, 20013, 24515, 21270, 37329, 34701]"
    by (simp add: raw_category_def raw_role_def raw_cluster_def value_defs strip_def
        isspace_def CATEGORY_CN_def ROLE_CN_def CLUSTER_CN_def)
  with run show ?thesis by blast
qed

subsection \<open>Metric fields taken from the metrics record\<close>

lemma truthy_get_default: "truthy (get m k) \<Longrightarrow> get_default m k v = get m k"
  by (simp add: get_def get_default_def split: option.splits)

lemma fix_capped_agdp_Inr:
  assumes "fix_capped_agdp B G V = Inr x"
  shows "\<exists>g. py_float B G = Inr g
     \<and> (if float_ge g AGDP_CAP
        then \<exists>v. py_float B V = Inr v \<and> x = (if float_gt v AGDP_CAP then v else g)
        else x = g)"
proof -
  from assms obtain g where g: "py_float B G = Inr g"
    and r: "(if float_ge g AGDP_CAP
             then bindE (py_float B V) (\<lambda>v. if float_gt v AGDP_CAP then Inr v else Inr g)
             else Inr g) = Inr x"
    unfolding fix_capped_agdp_def by (blast dest!: bindE_Inr)
  show ?thesis
  proof (cases "float_ge g AGDP_CAP")
    case True
    with r obtain v where "py_float B V = Inr v"
      "(if float_gt v AGDP_CAP then Inr v else Inr g) = (Inr x :: error + pyfloat)"
      by (auto dest!: bindE_Inr)
    with True g show ?thesis by (auto split: if_splits)
  next
    case False
    with r g show ?thesis by simp
  qed
qed

text \<open>
  C3 as stated fails for the gross value: a metrics record that supplies a gross value
  of 100000000 and a volume of 250000000, with nothing in the list and detail records,
  merges to a gross value of 250000000, not the 100000000 the metrics record supplies
  (whose float is exactly 100000000). The cap correction replaces it.
\<close>

theorem merge_agent_gross_capped_counterexample:
  "map_sum id gross_agdp
     (merge_agent unused_builtins 1 [(u ''id'', PInt 1)]
        (Some [(u ''id'', PInt 1), (u ''grossAgenticAmount'', PInt 100000000),
               (u ''volume'', PInt 250000000)]) None)
   = Inr (Finite 250000000)
 \<and> py_float unused_builtins (PInt 100000000) = Inr (Finite 100000000)"
  by (simp add: merge_steps value_defs agent_record_sel)

text \<open>
  C3, amended. Whenever the merge returns, each metric field follows the metrics record
  first. A truthy volume of the metrics record is the merged volume exactly (a missing,
  zero or empty one gives the list record's gross value or 0). A truthy revenue is the
  merged revenue exactly (otherwise 0). A truthy successful-job count is both the merged
  total-jobs and successful-jobs value exactly, and a truthy unique-buyer count is both
  the merged unique-active-wallets and unique-buyers value exactly (otherwise the detail
  record's value, then the list record's, then 0, so 0 when neither supplies one). A
  truthy gross value of the metrics record gives its float as the merged gross value,
  except when that float is at or above the cap and the float of the merged volume is
  above the cap: then the merged gross value is the float of the merged volume.
\<close>

theorem merge_agent_metrics_fields:
  assumes "merge_agent B r l md dd = Inr a"
  shows "(if truthy (get (or_empty md) ''volume'')
          then volume a = get (or_empty md) ''volume''
          else volume a = py_or (get_default l ''grossAgenticAmount'' (PInt 0)) (PInt 0))
       \<and> (if truthy (get (or_empty md) ''revenue'')
          then revenue a = get (or_empty md) ''revenue''
          else revenue a = PInt 0)
       \<and> (if truthy (get (or_empty md) ''successfulJobCount'')
          then total_jobs a = get (or_empty md) ''successfulJobCount''
             \<and> successful_jobs a = get (or_empty md) ''successfulJobCount''
          else total_jobs a
               = py_or (py_or (get (or_empty dd) ''transactionCount'')
                   (get_default l ''transactionCount'' (PInt 0))) (PInt 0)
             \<and> successful_jobs a
               = py_or (py_or (get (or_empty dd) ''successfulJobCount'')
                   (get_default l ''successfulJobCount'' (PInt 0))) (PInt 0))
       \<and> (if truthy (get (or_empty md) ''uniqueBuyerCount'')
          then unique_active_wallets a = get (or_empty md) ''uniqueBuyerCount''
             \<and> unique_buyers a = get (or_empty md) ''uniqueBuyerCount''
          else unique_active_wallets a
               = py_or (py_or (get (or_empty dd) ''uniqueBuyerCount'')
                   (get_default l ''uniqueBuyerCount'' (PInt 0))) (PInt 0)
             \<and> unique_buyers a
               = py_or (py_or (get (or_empty dd) ''uniqueBuyerCount'')
                   (get_default l ''uniqueBuyerCount'' (PInt 0))) (PInt 0))
       \<and> (truthy (get (or_empty md) ''grossAgenticAmount'') \<longrightarrow>
            (\<exists>g. py_float B (get (or_empty md) ''grossAgenticAmount'') = Inr g
               \<and> (if float_ge g AGDP_CAP
                  then \<exists>v. py_float B (volume a) = Inr v
                         \<and> gross_agdp a = (if float_gt v AGDP_CAP then v else g)
                  else gross_agdp a = g)))"
proof -
  from merge_agent_Inr [OF assms] obtain cstr online gross sr offs where
    g: "fix_capped_agdp B (merged_gross l (or_empty md)) (merged_volume l (or_empty md))
         = Inr gross"
    and a: "a = agent_record B r l (or_empty md) (or_empty dd)
         (last_active l (or_empty md) (or_empty dd))
         (py_or (get l ''id'') (get_default (or_empty dd) ''id'' (PInt 0)))
         cstr online gross sr offs"
    by blast
  have vol: "volume a = merged_volume l (or_empty md)"
    and rev: "revenue a = py_or (get_default (or_empty md) ''revenue'' (PInt 0)) (PInt 0)"
    and gr: "gross_agdp a = gross"
    by (simp_all add: a agent_record_sel)
  have 1: "if truthy (get (or_empty md) ''volume'')
          then volume a = get (or_empty md) ''volume''
          else volume a = py_or (get_default l ''grossAgenticAmount'' (PInt 0)) (PInt 0)"
    by (simp add: vol merged_volume_def py_or_def)
  have 2: "if truthy (get (or_empty md) ''revenue'')
          then revenue a = get (or_empty md) ''revenue''
          else revenue a = PInt 0"
    by (auto simp: rev py_or_def get_def get_default_def split: option.splits)
  have 3: "if truthy (get (or_empty md) ''successfulJobCount'')
          then total_jobs a = get (or_empty md) ''successfulJobCount''
             \<and> successful_jobs a = get (or_empty md) ''successfulJobCount''
          else total_jobs a
               = py_or (py_or (get (or_empty dd) ''transactionCount'')
                   (get_default l ''transactionCount'' (PInt 0))) (PInt 0)
             \<and> successful_jobs a
               = py_or (py_or (get (or_empty dd) ''successfulJobCount'')
                   (get_default l ''successfulJobCount'' (PInt 0))) (PInt 0)"
    by (simp add: a agent_record_sel py_or_def)
  have 4: "if truthy (get (or_empty md) ''uniqueBuyerCount'')
          then unique_active_wallets a = get (or_empty md) ''uniqueBuyerCount''
             \<and> unique_buyers a = get (or_empty md) ''uniqueBuyerCount''
          else unique_active_wallets a
               = py_or (py_or (get (or_empty dd) ''uniqueBuyerCount'')
                   (get_default l ''uniqueBuyerCount'' (PInt 0))) (PInt 0)
             \<and> unique_buyers a
               = py_or (py_or (get (or_empty dd) ''uniqueBuyerCount'')
                   (get_default l ''uniqueBuyerCount'' (PInt 0))) (PInt 0)"
    by (simp add: a agent_record_sel py_or_def)
  have 5: "\<exists>g. py_float B (get (or_empty md) ''grossAgenticAmount'') = Inr g
               \<and> (if float_ge g AGDP_CAP
                  then \<exists>v. py_float B (volume a) = Inr v
                         \<and> gross_agdp a = (if float_gt v AGDP_CAP then v else g)
                  else gross_agdp a = g)"
    if t: "truthy (get (or_empty md) ''grossAgenticAmount'')"
  proof -
    have "merged_gross l (or_empty md) = get (or_empty md) ''grossAgenticAmount''"
      using t by (simp add: merged_gross_def py_or_def)
    with g have "fix_capped_agdp B (get (or_empty md) ''grossAgenticAmount'') (volume a)
       = Inr (gross_agdp a)"
      by (simp add: vol gr)
    from fix_capped_agdp_Inr [OF this] show ?thesis .
  qed
  from 1 2 3 4 5 show ?thesis by blast
qed

theorem merge_agent_metrics_fields_witness:
  "\<exists>a. merge_agent unused_builtins 1
          [(u ''id'', PInt 1), (u ''name'', PStr (u ''Foo''))]
          (Some [(u ''id'', PInt 1), (u ''volume'', PInt 60), (u ''revenue'', PInt 7),
                 (u ''grossAgenticAmount'', PInt 50), (u ''successfulJobCount'', PInt 12),
                 (u ''uniqueBuyerCount'', PInt 4)]) None = Inr a
      \<and> volume a = PInt 60 \<and> revenue a = PInt 7 \<and> gross_agdp a = Finite 50
      \<and> total_jobs a = PInt 12 \<and> successful_jobs a = PInt 12
      \<and> unique_active_wallets a = PInt 4 \<and> unique_buyers a = PInt 4"
proof -
  have "\<exists>a. merge_agent unused_builtins 1
          [(u ''id'', PInt 1), (u ''name'', PStr (u ''Foo''))]
          (Some [(u ''id'', PInt 1), (u ''volume'', PInt 60), (u ''revenue'', PInt 7),
                 (u ''grossAgenticAmount'', PInt 50), (u ''successfulJobCount'', PInt 12),
                 (u ''uniqueBuyerCount'', PInt 4)]) None = Inr a"
    by (simp add: merge_steps value_defs)
  then obtain a where run: "merge_agent unused_builtins 1
          [(u ''id'', PInt 1), (u ''name'', PStr (u ''Foo''))]
          (Some [(u ''id'', PInt 1), (u ''volume'', PInt 60), (u ''revenue'', PInt 7),
                 (u ''grossAgenticAmount'', PInt 50), (u ''successfulJobCount'', PInt 12),
                 (u ''uniqueBuyerCount'', PInt 4)]) None = Inr a" ..
  from merge_agent_metrics_fields [OF run] have
    "volume a = PInt 60 \<and> revenue a = PInt 7 \<and> gross_agdp a = Finite 50
      \<and> total_jobs a = PInt 12 \<and> successful_jobs a = PInt 12
      \<and> unique_active_wallets a = PInt 4 \<and> unique_buyers a = PInt 4"
    by (simp add: value_defs float_of_int_def float_ge_def float_le_def AGDP_CAP_def)
  with run show ?thesis by blast
qed

subsection \<open>The retry budget\<close>

lemma get_loop_all_fail:
  "(\<And>k. k \<in> set ks \<Longrightarrow> returned_body (up k) = None) \<Longrightarrow>
   get_loop mr up ks
   = (PNone, concat (map (\<lambda>k. Request k # (if int k < mr - 1 then [Sleep (2 ^ k)] else [])) ks))"
  by (induction ks) (simp_all add: Let_def)

lemma backoff_trace:
  "concat (map (\<lambda>k. Request k # (if int k < int n - 1 then [Sleep (2 ^ k)] else [])) [0..<n])
   = concat (map (\<lambda>k. [Request k, Sleep (2 ^ k)]) [0..<n - 1])
     @ (if n = 0 then [] else [Request (n - 1)])"
proof (cases n)
  case 0
  then show ?thesis by simp
next
  case (Suc m)
  have eq: "concat (map (\<lambda>k. Request k # (if k < m then [Sleep (2 ^ k)] else [])) [0..<m])
      = concat (map (\<lambda>k. [Request k, Sleep (2 ^ k)]) [0..<m])"
    by (rule arg_cong [where f = concat], rule map_cong) auto
  show ?thesis unfolding Suc by (simp add: eq)
qed

text \<open>
  C5. When every attempt fails (a status other than 200, a body that does not parse, or
  an exception), \<open>_get\<close> returns \<open>None\<close> after the attempts \<open>0, ..., max_retries - 1\<close>,
  each but the last followed by a sleep of \<open>2 ^ attempt\<close> seconds, and no sleep after
  the last. Nothing is raised: the result is a value for every upstream.
\<close>

theorem get_retry_budget:
  assumes "\<forall>k<nat max_retries. returned_body (upstream k) = None"
  shows "ACPScraper_get max_retries upstream
     = (PNone,
        concat (map (\<lambda>k. [Request k, Sleep (2 ^ k)]) [0..<nat max_retries - 1])
        @ (if max_retries \<le> 0 then [] else [Request (nat max_retries - 1)]))"
proof (cases "max_retries \<le> 0")
  case True
  then show ?thesis by (simp add: ACPScraper_get_def)
next
  case False
  then have mr: "max_retries = int (nat max_retries)" "nat max_retries \<noteq> 0" by simp_all
  have "ACPScraper_get max_retries upstream
     = (PNone, concat (map (\<lambda>k. Request k #
          (if int k < int (nat max_retries) - 1 then [Sleep (2 ^ k)] else []))
          [0..<nat max_retries]))"
    unfolding ACPScraper_get_def using assms mr(1)
    by (subst get_loop_all_fail) simp_all
  then show ?thesis using False mr(2) by (simp only: backoff_trace)
qed

theorem get_retry_budget_witness:
  "ACPScraper_get 3 (\<lambda>k. if k = 1 then Raised else Response 503 None)
     = (PNone, [Request 0, Sleep 1, Request 1, Sleep 2, Request 2])"
  using get_retry_budget [of 3 "\<lambda>k. if k = 1 then Raised else Response 503 None"]
  by (simp add: upt_conv_Cons)

subsection \<open>The pagination walker\<close>

lemma walk_pages_to_last:
  assumes "\<And>q. p \<le> q \<Longrightarrow> q < k \<Longrightarrow>
             fetch q = Inr (PList (pages q)) \<and> page_size \<le> int (length (pages q))"
    and "fetch k = Inr (PList (pages k))" and "int (length (pages k)) < page_size"
    and "p \<le> k"
  shows "walk_pages fetch p acc = Some (Inr (acc @ concat (map pages [p..k]), k))"
  using assms
proof (induction "nat (k - p)" arbitrary: p acc)
  case 0
  then have pk: "p = k" by simp
  show ?case
    using "0.prems"(2,3) unfolding pk
    by (subst walk_pages.simps) (auto simp: page_size_def)
next
  case (Suc n)
  then have lt: "p < k" by simp
  from Suc.prems(1) [of p] lt have full: "fetch p = Inr (PList (pages p))"
    "page_size \<le> int (length (pages p))" by simp_all
  then have ne: "pages p \<noteq> []" by (auto simp: page_size_def)
  have step: "walk_pages fetch p acc = walk_pages fetch (p + 1) (acc @ pages p)"
    using full ne by (subst walk_pages.simps) simp
  have "walk_pages fetch (p + 1) (acc @ pages p)
      = Some (Inr ((acc @ pages p) @ concat (map pages [p + 1..k]), k))"
  proof (rule Suc.hyps(1))
    show "n = nat (k - (p + 1))" using Suc.hyps(2) by simp
    show "p + 1 \<le> k" using lt by simp
    show "fetch k = Inr (PList (pages k))" by (rule Suc.prems(2))
    show "int (length (pages k)) < page_size" by (rule Suc.prems(3))
    show "fetch q = Inr (PList (pages q)) \<and> page_size \<le> int (length (pages q))"
      if "p + 1 \<le> q" "q < k" for q
      using Suc.prems(1) [of q] that by simp
  qed
  moreover have "[p..k] = p # [p + 1..k]" using lt by (simp add: upto_rec1)
  ultimately show ?case using step by simp
qed

lemma fetch_metrics_leaderboard_failed:
  assumes "\<forall>a<nat mr. returned_body (up page a) = None"
  shows "fetch_metrics_leaderboard mr up page = Inr (PList [])"
proof -
  have "fst (ACPScraper_get mr (up page)) = PNone"
    unfolding ACPScraper_get_def using assms by (subst get_loop_all_fail) simp_all
  then show ?thesis by (simp add: fetch_metrics_leaderboard_def data_of_def)
qed

text \<open>
  C6. When the pages before page \<open>k\<close> each return at least \<open>page_size\<close> records and page
  \<open>k\<close> returns fewer (none at all included, which is also what a page gives whose every
  attempt failed), the walk ends after requesting page \<open>k\<close> and returns the records of
  the pages \<open>1, ..., k\<close> in order. With a first page of exactly \<open>page_size\<close> records and an
  empty second page, that is \<open>page_size\<close> records after two requests.
\<close>

theorem fetch_all_metrics_pages_stops:
  assumes "1 \<le> k"
    and "\<forall>q. 1 \<le> q \<and> q < k \<longrightarrow>
           fetch_metrics_leaderboard max_retries upstream q = Inr (PList (pages q))
           \<and> page_size \<le> int (length (pages q))"
    and "fetch_metrics_leaderboard max_retries upstream k = Inr (PList (pages k))"
    and "int (length (pages k)) < page_size"
  shows "fetch_all_metrics_pages max_retries upstream
           = Some (Inr (concat (map pages [1..k]), k))"
  unfolding fetch_all_metrics_pages_def
  using walk_pages_to_last [of 1 k "fetch_metrics_leaderboard max_retries upstream" pages "[]"]
    assms
  by simp

theorem fetch_all_metrics_pages_stops_witness:
  "fetch_all_metrics_pages 3
     (\<lambda>page attempt.
        if page = 1
        then Response 200 (Some (PDict [(u ''data'', PList (replicate 100 (PDict [])))]))
        else Response 200 (Some (PDict [(u ''data'', PList [])])))
   = Some (Inr (replicate 100 (PDict []), 2))"
proof -
  let ?up = "\<lambda>(page::int) (attempt::nat).
        if page = 1
        then Response 200 (Some (PDict [(u ''data'', PList (replicate 100 (PDict [])))]))
        else Response 200 (Some (PDict [(u ''data'', PList [])]))"
  let ?pages = "\<lambda>q::int. if q = 1 then replicate 100 (PDict []) else []"
  have f: "fetch_metrics_leaderboard 3 ?up q = Inr (PList (?pages q))" for q
    by (simp add: fetch_metrics_leaderboard_def ACPScraper_get_def upt_conv_Cons data_of_def u_def)
  have full: "\<forall>q. 1 \<le> q \<and> q < 2 \<longrightarrow>
           fetch_metrics_leaderboard 3 ?up q = Inr (PList (?pages q))
           \<and> page_size \<le> int (length (?pages q))"
    by (auto simp: f page_size_def)
  have short: "int (length (?pages 2)) < page_size" by (simp add: page_size_def)
  have "concat (map ?pages [1..2]) = replicate 100 (PDict [])"
    by (simp add: upto_rec1)
  with fetch_all_metrics_pages_stops [of 2 3 ?up ?pages, OF _ full f short]
  show ?thesis by simp
qed

subsection \<open>Loading the configuration\<close>

text \<open>
  C9 as stated fails for a malformed file: when \<open>yaml.safe_load\<close> raises YAMLError on the
  file's text, \<open>load_config\<close> raises it to the caller and returns no configuration.
\<close>

theorem load_config_yaml_error_counterexample:
  "load_config (Inr (u ''scraper: [unclosed'')) (\<lambda>text. Inl YAMLError) = Inl YAMLError"
  by (simp add: load_config_def bindE_def)

text \<open>
  C9, amended. For a missing file the loader returns the empty configuration. For a
  file that opens, it returns the document's value, or the empty configuration when
  that value is falsy (an empty file); an exception of the YAML parser other than
  FileNotFoundError, such as the YAMLError of a malformed file, reaches the caller.
\<close>

theorem load_config_cases:
  "load_config (Inl FileNotFoundError) safe_load = Inr (PDict [])
   \<and> load_config (Inr text) safe_load
     = (case safe_load text of
          Inl e \<Rightarrow> if e = FileNotFoundError then Inr (PDict []) else Inl e
        | Inr v \<Rightarrow> Inr (py_or v (PDict [])))"
  by (auto simp: load_config_def bindE_def split: sum.splits error.splits)

subsection \<open>Ranking\<close>

lemma mapE_Inr: "mapE f xs = Inr ys \<Longrightarrow> list_all2 (\<lambda>x y. f x = Inr y) xs ys"
proof (induction xs arbitrary: ys)
  case Nil
  then show ?case by simp
next
  case (Cons x xs)
  from Cons.prems obtain y ys' where "f x = Inr y" "mapE f xs = Inr ys'" "ys = y # ys'"
    by (auto dest!: bindE_Inr)
  with Cons.IH [of ys'] show ?case by simp
qed

lemma merge_ranked_Inr:
  "merge_ranked B am mf det rk xs = Inr out \<Longrightarrow>
   length out = length xs
   \<and> (\<forall>i<length xs. merge_agent B (rk + int i) (list_entry am (xs ! i)) (mf (xs ! i))
         (det (xs ! i)) = Inr (out ! i))"
proof (induction xs arbitrary: rk out)
  case Nil
  then show ?case by simp
next
  case (Cons x xs)
  from Cons.prems obtain a as where a: "merge_agent B rk (list_entry am x) (mf x) (det x) = Inr a"
    and as: "merge_ranked B am mf det (rk + 1) xs = Inr as" and out: "out = a # as"
    by (auto dest!: bindE_Inr)
  from Cons.IH [OF as] have len: "length as = length xs"
    and rest: "\<And>i. i < length xs \<Longrightarrow>
      merge_agent B (rk + 1 + int i) (list_entry am (xs ! i)) (mf (xs ! i)) (det (xs ! i))
        = Inr (as ! i)"
    by simp_all
  show ?case
  proof (intro conjI allI impI)
    show "length out = length (x # xs)" by (simp add: out len)
    fix i assume "i < length (x # xs)"
    then show "merge_agent B (rk + int i) (list_entry am ((x # xs) ! i)) (mf ((x # xs) ! i))
         (det ((x # xs) ! i)) = Inr (out ! i)"
      using a rest [of "i - 1"] by (cases i) (simp_all add: out algebra_simps)
  qed
qed

lemma fold_upd_id:
  assumes "\<And>i a. (i, a) \<in> set ps \<Longrightarrow> id_of a = Inr i"
    and "\<And>e. m0 aid = Some e \<Longrightarrow> id_of e = Inr aid"
    and "fold (\<lambda>(i, a) mp. mp(i \<mapsto> a)) ps m0 aid = Some e"
  shows "id_of e = Inr aid"
  using assms
proof (induction ps arbitrary: m0)
  case Nil
  then show ?case by simp
next
  case (Cons p ps)
  obtain i a where p: "p = (i, a)" by (cases p)
  show ?case
  proof (rule Cons.IH [of "m0(i \<mapsto> a)"])
    show "id_of a' = Inr i'" if "(i', a') \<in> set ps" for i' a'
      using Cons.prems(1) that by simp
    show "id_of e' = Inr aid" if "(m0(i \<mapsto> a)) aid = Some e'" for e'
      using that Cons.prems(1) [of i a] Cons.prems(2) p by (auto split: if_splits)
    show "fold (\<lambda>(i, a) mp. mp(i \<mapsto> a)) ps (m0(i \<mapsto> a)) aid = Some e"
      using Cons.prems(3) p by (simp del: fun_upd_apply)
  qed
qed

lemma dict_by_id_id:
  assumes "mapE id_of recs = Inr ids" and "dict_by_id ids recs aid = Some e"
  shows "id_of e = Inr aid"
proof (rule fold_upd_id [of "zip ids recs" Map.empty aid e])
  from mapE_Inr [OF assms(1)] have l2: "list_all2 (\<lambda>x y. id_of x = Inr y) recs ids" .
  show "id_of a = Inr i" if "(i, a) \<in> set (zip ids recs)" for i a
    using that l2 by (auto simp: in_set_zip list_all2_conv_all_nth)
  show "id_of e' = Inr aid" if "Map.empty aid = Some e'" for e'
    using that by simp
  show "fold (\<lambda>(i, a) mp. mp(i \<mapsto> a)) (zip ids recs) Map.empty aid = Some e"
    using assms(2) by (simp add: dict_by_id_def)
qed

lemma id_of_get: "id_of e = Inr aid \<Longrightarrow> get e ''id'' = PInt aid"
  by (auto simp: id_of_def get_def split: option.splits pyval.splits)

lemma list_entry_id:
  assumes "agents_map F = Inr am"
  shows "get (list_entry am aid) ''id'' = PInt aid"
proof (cases "am aid")
  case None
  then show ?thesis by (simp add: list_entry_def get_def)
next
  case (Some e)
  from assms obtain ids where "mapE id_of (agents_list F) = Inr ids"
    "am = dict_by_id ids (agents_list F)"
    unfolding agents_map_def by (auto dest!: bindE_Inr)
  with Some have "id_of e = Inr aid" by (auto intro: dict_by_id_id)
  with Some show ?thesis by (simp add: list_entry_def id_of_get)
qed

lemma all_ids_strict:
  assumes "all_ids F = Inr ids"
  shows "sorted_wrt (<) ids"
proof -
  from assms obtain zs where "ids = sort (remdups zs)"
    unfolding all_ids_def by (auto dest!: bindE_Inr)
  then show ?thesis by (simp add: strict_sorted_iff)
qed

lemma sorted_wrt_by_class:
  assumes "\<And>k. sorted_wrt (<) (filter (\<lambda>y. f y = k) ys)"
  shows "sorted_wrt (\<lambda>x y. f x = f y \<longrightarrow> x < y) ys"
  using assms
proof (induction ys)
  case Nil
  then show ?case by simp
next
  case (Cons y ys)
  have tl: "sorted_wrt (<) (filter (\<lambda>z. f z = k) ys)" for k
    using Cons.prems [of k] by (cases "f y = k") simp_all
  have hd: "y < z" if "z \<in> set ys" "f y = f z" for z
    using Cons.prems [of "f y"] that by auto
  from Cons.IH [OF tl] hd show ?case by auto
qed

lemma reverse_sort_descending:
  "sorted_wrt (\<lambda>x y. f y \<le> f x) (rev (sort_key f xs))" for f :: "'a \<Rightarrow> 'b::linorder"
proof -
  have "sorted (map f (sort_key f xs))" by (rule sorted_sort_key)
  then have "sorted_wrt (\<lambda>x y. f x \<le> f y) (sort_key f xs)" by (simp add: sorted_map)
  then show ?thesis by (simp add: sorted_wrt_rev)
qed

lemma reverse_sort_ties:
  fixes f :: "'a::linorder \<Rightarrow> 'b::linorder"
  assumes "sorted_wrt (<) xs"
  shows "sorted_wrt (\<lambda>x y. f x = f y \<longrightarrow> x < y) (rev (sort_key f (rev xs)))"
proof (rule sorted_wrt_by_class)
  fix k
  have "filter (\<lambda>y. f y = k) (rev (sort_key f (rev xs)))
      = rev (filter (\<lambda>y. f y = k) (sort_key f (rev xs)))"
    by (simp add: rev_filter)
  also have "\<dots> = rev (filter (\<lambda>y. f y = k) (rev xs))"
    by (simp add: sort_key_stable)
  also have "\<dots> = filter (\<lambda>y. f y = k) xs"
    by (simp add: rev_filter)
  finally show "sorted_wrt (<) (filter (\<lambda>y. f y = k) (rev (sort_key f (rev xs))))"
    using assms by (simp add: sorted_wrt_filter)
qed

lemma py_lt_num:
  assumes "num_ord a = Some p" "num_ord b = Some q"
  shows "py_lt B a b = Inr (p < q)"
proof -
  from assms(1) obtain x where x: "py_num a = Some x" "x \<noteq> NaN"
    "p = (case x of Finite r \<Rightarrow> (0, r) | PosInf \<Rightarrow> (1, 0) | NegInf \<Rightarrow> (- 1, 0) | NaN \<Rightarrow> (0, 0))"
    by (cases a rule: num_ord.cases) auto
  from assms(2) obtain y where y: "py_num b = Some y" "y \<noteq> NaN"
    "q = (case y of Finite r \<Rightarrow> (0, r) | PosInf \<Rightarrow> (1, 0) | NegInf \<Rightarrow> (- 1, 0) | NaN \<Rightarrow> (0, 0))"
    by (cases b rule: num_ord.cases) auto
  show ?thesis
    using x y by (cases x; cases y) (simp_all add: py_lt_def)
qed

lemma py_lt_str:
  assumes "is_str a" "is_str b"
  shows "py_lt B a b = Inr (str_val a < str_val b)"
  using assms by (cases a; cases b) (simp_all add: py_lt_def)

lemma sorted_reverse_by:
  fixes f :: "int \<Rightarrow> 'b::linorder"
  assumes ys: "ys = rev (sort_key f (rev xs))"
    and lt: "\<And>x y. x \<in> set xs \<Longrightarrow> y \<in> set xs \<Longrightarrow> py_lt B (key x) (key y) = Inr (f x < f y)"
  shows "sorted_wrt (\<lambda>x y. py_lt B (key x) (key y) = Inr False) ys"
    and "sorted_wrt (<) xs \<Longrightarrow>
         sorted_wrt (\<lambda>x y. py_lt B (key x) (key y) = Inr False
                         \<and> py_lt B (key y) (key x) = Inr False \<longrightarrow> x < y) ys"
proof -
  have set: "set ys = set xs" by (simp add: ys)
  have "sorted_wrt (\<lambda>x y. f y \<le> f x) ys"
    unfolding ys by (rule reverse_sort_descending)
  then show "sorted_wrt (\<lambda>x y. py_lt B (key x) (key y) = Inr False) ys"
    by (rule sorted_wrt_mono_rel [rotated]) (auto simp: set lt)
  assume "sorted_wrt (<) xs"
  then have "sorted_wrt (\<lambda>x y. f x = f y \<longrightarrow> x < y) ys"
    unfolding ys by (rule reverse_sort_ties)
  then show "sorted_wrt (\<lambda>x y. py_lt B (key x) (key y) = Inr False
                         \<and> py_lt B (key y) (key x) = Inr False \<longrightarrow> x < y) ys"
    by (rule sorted_wrt_mono_rel [rotated]) (auto simp: set lt)
qed

lemma sorted_reverse_total:
  assumes tk: "total_keys key xs" and sr: "sorted_reverse B key xs = Inr ys"
  shows "sorted_wrt (\<lambda>x y. py_lt B (key x) (key y) = Inr False) ys"
    and "sorted_wrt (<) xs \<Longrightarrow>
         sorted_wrt (\<lambda>x y. py_lt B (key x) (key y) = Inr False
                         \<and> py_lt B (key y) (key x) = Inr False \<longrightarrow> x < y) ys"
proof -
  have "sorted_wrt (\<lambda>x y. py_lt B (key x) (key y) = Inr False) ys
      \<and> (sorted_wrt (<) xs \<longrightarrow>
         sorted_wrt (\<lambda>x y. py_lt B (key x) (key y) = Inr False
                         \<and> py_lt B (key y) (key x) = Inr False \<longrightarrow> x < y) ys)"
  proof (cases "list_all (\<lambda>x. num_ord (key x) \<noteq> None) xs")
    case True
    then have ys: "ys = rev (sort_key (\<lambda>x. num_val (key x)) (rev xs))"
      using sr by (simp add: sorted_reverse_def)
    have lt: "py_lt B (key x) (key y) = Inr (num_val (key x) < num_val (key y))"
      if "x \<in> set xs" "y \<in> set xs" for x y
    proof -
      from True that have "num_ord (key x) \<noteq> None" "num_ord (key y) \<noteq> None"
        by (simp_all add: list_all_iff)
      then obtain p q where "num_ord (key x) = Some p" "num_ord (key y) = Some q"
        by blast
      then show ?thesis by (simp add: py_lt_num num_val_def)
    qed
    from sorted_reverse_by [OF ys lt] show ?thesis by blast
  next
    case False
    show ?thesis
    proof (cases "list_all (\<lambda>x. is_str (key x)) xs")
      case True
      with False have ys: "ys = rev (sort_key (\<lambda>x. str_val (key x)) (rev xs))"
        using sr by (simp add: sorted_reverse_def)
      have lt: "py_lt B (key x) (key y) = Inr (str_val (key x) < str_val (key y))"
        if "x \<in> set xs" "y \<in> set xs" for x y
        using True that by (simp add: py_lt_str list_all_iff)
      from sorted_reverse_by [OF ys lt] show ?thesis by blast
    next
      case nostr: False
      with False tk have short: "length xs < 2" by (simp add: total_keys_def)
      with False nostr sr have "ys = xs"
        by (auto simp: sorted_reverse_def sort_short_def bindE_def rev_map [symmetric]
            comp_def)
      with short have "length ys < 2" by simp
      then have "ys = [] \<or> (\<exists>y. ys = [y])"
        by (cases ys) (auto simp: length_Suc_conv)
      then show ?thesis by auto
    qed
  qed
  then show "sorted_wrt (\<lambda>x y. py_lt B (key x) (key y) = Inr False) ys"
    and "sorted_wrt (<) xs \<Longrightarrow>
         sorted_wrt (\<lambda>x y. py_lt B (key x) (key y) = Inr False
                         \<and> py_lt B (key y) (key x) = Inr False \<longrightarrow> x < y) ys"
    by blast+
qed

lemma scrape_all_Inr:
  assumes "scrape_all B F = Inr (out, gm)"
  shows "\<exists>mm am ids0 ids.
      metrics_map F = Inr mm \<and> agents_map F = Inr am \<and> all_ids F = Inr ids0
    \<and> sorted_ids B F = Inr ids
    \<and> sorted_reverse B (volume_key (ind_metrics_map F) mm) ids0 = Inr ids
    \<and> merge_ranked B am (merged_metrics (ind_metrics_map F) mm) (detail_map F) 1 ids = Inr out
    \<and> gm = (global_metrics F)\<lparr> total_agents := int (length ids0) \<rparr>"
proof -
  from assms obtain mm am ids0 ids where
    1: "metrics_map F = Inr mm" "agents_map F = Inr am" "all_ids F = Inr ids0"
       "sorted_ids B F = Inr ids"
    and 2: "merge_ranked B am (merged_metrics (ind_metrics_map F) mm) (detail_map F) 1 ids
         = Inr out"
       "gm = (global_metrics F)\<lparr> total_agents := int (length ids0) \<rparr>"
    unfolding scrape_all_def by (auto dest!: bindE_Inr)
  from 1 have "sorted_reverse B (volume_key (ind_metrics_map F) mm) ids0 = Inr ids"
    by (simp add: sorted_ids_def bindE_def)
  with 1 2 show ?thesis by blast
qed

lemmas scrape_steps = scrape_all_def metrics_map_def agents_map_def all_ids_def sorted_ids_def
  sorted_reverse_def volume_key_def ind_metrics_map_def detail_map_def merged_metrics_def
  dict_by_id_def id_of_def list_entry_def num_val_def

lemmas sort_steps = sort_short_def count_run_def py_lt_def

lemma all_less_three: "(\<forall>i<3::nat. P i) = (P 0 \<and> P 1 \<and> P 2)"
  by (auto simp: numeral_3_eq_3 numeral_2_eq_2 less_Suc_eq)

lemma scrape_all_output:
  assumes "scrape_all B F = Inr (out, gm)"
  shows "\<exists>mm ids0 ids.
      metrics_map F = Inr mm \<and> all_ids F = Inr ids0 \<and> sorted_ids B F = Inr ids
    \<and> sorted_reverse B (volume_key (ind_metrics_map F) mm) ids0 = Inr ids
    \<and> length out = length ids
    \<and> (\<forall>i<length out. rank (out ! i) = int i + 1
          \<and> (ids ! i \<noteq> 0 \<longrightarrow> agent_id (out ! i) = PInt (ids ! i)))"
proof -
  from scrape_all_Inr [OF assms] obtain mm am ids0 ids where
    mm: "metrics_map F = Inr mm" and am: "agents_map F = Inr am"
    and ids0: "all_ids F = Inr ids0" and ids: "sorted_ids B F = Inr ids"
    and sr: "sorted_reverse B (volume_key (ind_metrics_map F) mm) ids0 = Inr ids"
    and mr: "merge_ranked B am (merged_metrics (ind_metrics_map F) mm) (detail_map F) 1 ids
         = Inr out"
    by blast
  from merge_ranked_Inr [OF mr] have len: "length out = length ids"
    and each: "\<And>i. i < length ids \<Longrightarrow>
      merge_agent B (1 + int i) (list_entry am (ids ! i))
        (merged_metrics (ind_metrics_map F) mm (ids ! i)) (detail_map F (ids ! i))
        = Inr (out ! i)"
    by simp_all
  have rec: "rank (out ! i) = int i + 1
       \<and> (ids ! i \<noteq> 0 \<longrightarrow> agent_id (out ! i) = PInt (ids ! i))" if "i < length out" for i
  proof -
    from that len have "i < length ids" by simp
    from merge_agent_Inr [OF each [OF this]] obtain cstr online gross sr offs where
      "out ! i = agent_record B (1 + int i) (list_entry am (ids ! i))
         (or_empty (merged_metrics (ind_metrics_map F) mm (ids ! i)))
         (or_empty (detail_map F (ids ! i)))
         (last_active (list_entry am (ids ! i))
            (or_empty (merged_metrics (ind_metrics_map F) mm (ids ! i)))
            (or_empty (detail_map F (ids ! i))))
         (py_or (get (list_entry am (ids ! i)) ''id'')
            (get_default (or_empty (detail_map F (ids ! i))) ''id'' (PInt 0)))
         cstr online gross sr offs"
      by blast
    then show ?thesis
      by (simp add: agent_record_sel list_entry_id [OF am] py_or_def)
  qed
  from sr mm ids0 ids len rec show ?thesis by blast
qed

lemma ordered_keys_total:
  assumes "ordered_keys F" "metrics_map F = Inr mm" "all_ids F = Inr ids0"
  shows "total_keys (volume_key (ind_metrics_map F) mm) ids0"
  using assms by (simp add: ordered_keys_def)

text \<open>
  C4 as stated fails twice over. The sort key reads the volume of the metrics records
  only, while the merged volume falls back to the list record's gross value: with agent
  1 known to the list endpoint alone (gross value 1000) and agent 2 on the leaderboard
  with volume 5, agent 2 gets rank 1 with merged volume 5 and agent 1 gets rank 2 with
  merged volume 1000. And a NaN among the keys leaves the sort without an order to
  follow: with leaderboard volumes 1, NaN and 2 for the agents 1, 2 and 3, the output
  keeps the order 1, 2, 3, the volume 1 ranked above the volume 2.
\<close>

theorem scrape_all_volume_order_counterexample:
  "map_sum id (ranking \<circ> fst)
     (scrape_all unused_builtins
        \<lparr> global_metrics = no_metrics,
          agents_list = [[(u ''id'', PInt 1), (u ''grossAgenticAmount'', PInt 1000)],
                         [(u ''id'', PInt 2)]],
          metrics_list = [[(u ''id'', PInt 2), (u ''volume'', PInt 5)]],
          results = (\<lambda>aid. TaskReturned None None) \<rparr>)
   = Inr [(1, PInt 2, PInt 5), (2, PInt 1, PInt 1000)]
 \<and> map_sum id (ordered_by_volume \<circ> fst)
     (scrape_all unused_builtins
        \<lparr> global_metrics = no_metrics,
          agents_list = [[(u ''id'', PInt 1), (u ''grossAgenticAmount'', PInt 1000)],
                         [(u ''id'', PInt 2)]],
          metrics_list = [[(u ''id'', PInt 2), (u ''volume'', PInt 5)]],
          results = (\<lambda>aid. TaskReturned None None) \<rparr>)
   = Inr False
 \<and> map_sum id (ranking \<circ> fst)
     (scrape_all unused_builtins
        \<lparr> global_metrics = no_metrics,
          agents_list = [],
          metrics_list = [[(u ''id'', PInt 1), (u ''volume'', PInt 1)],
                          [(u ''id'', PInt 2), (u ''volume'', PFloat NaN)],
                          [(u ''id'', PInt 3), (u ''volume'', PInt 2)]],
          results = (\<lambda>aid. TaskReturned None None) \<rparr>)
   = Inr [(1, PInt 1, PInt 1), (2, PInt 2, PFloat NaN), (3, PInt 3, PInt 2)]
 \<and> map_sum id (ordered_by_volume \<circ> fst)
     (scrape_all unused_builtins
        \<lparr> global_metrics = no_metrics,
          agents_list = [],
          metrics_list = [[(u ''id'', PInt 1), (u ''volume'', PInt 1)],
                          [(u ''id'', PInt 2), (u ''volume'', PFloat NaN)],
                          [(u ''id'', PInt 3), (u ''volume'', PInt 2)]],
          results = (\<lambda>aid. TaskReturned None None) \<rparr>)
   = Inr False"
  by (simp add: scrape_steps sort_steps merge_steps value_defs agent_record_sel ranking_def
      ordered_by_volume_def val_le_def)

text \<open>
  C4, amended. In the list a scrape run returns, the rank of the record at position
  \<open>i\<close> (from 0) is \<open>i + 1\<close> and the records follow the sorted ids (the record at position
  \<open>i\<close> carries the \<open>i\<close>-th id; for the id 0 the merge may take the detail record's id
  instead). When \<open><\<close> orders the ranking keys of the run totally (all of them numbers
  other than NaN, or all of them strings, or fewer than two keys), the ids are in
  descending order of ranking key: the key of an earlier id is never less than the key of a later one. The ranking
  key of an id is the first truthy of its per-agent metrics volume and its leaderboard
  volume, else 0; the list record's gross value, which the merged volume falls back to,
  is no part of it.
\<close>

theorem scrape_all_ranked_by_key:
  assumes "scrape_all B F = Inr (out, gm)"
  shows "\<exists>mm ids.
      metrics_map F = Inr mm \<and> sorted_ids B F = Inr ids \<and> length out = length ids
    \<and> (\<forall>i<length out. rank (out ! i) = int i + 1
          \<and> (ids ! i \<noteq> 0 \<longrightarrow> agent_id (out ! i) = PInt (ids ! i)))
    \<and> (ordered_keys F \<longrightarrow>
        (\<forall>i j. i < j \<and> j < length ids \<longrightarrow>
           py_lt B (volume_key (ind_metrics_map F) mm (ids ! i))
                   (volume_key (ind_metrics_map F) mm (ids ! j)) = Inr False))"
proof -
  from scrape_all_output [OF assms] obtain mm ids0 ids where
    mm: "metrics_map F = Inr mm" and ids0: "all_ids F = Inr ids0"
    and ids: "sorted_ids B F = Inr ids"
    and sr: "sorted_reverse B (volume_key (ind_metrics_map F) mm) ids0 = Inr ids"
    and len: "length out = length ids"
    and rec: "\<forall>i<length out. rank (out ! i) = int i + 1
          \<and> (ids ! i \<noteq> 0 \<longrightarrow> agent_id (out ! i) = PInt (ids ! i))"
    by blast
  let ?K = "volume_key (ind_metrics_map F) mm"
  have ord: "py_lt B (?K (ids ! i)) (?K (ids ! j)) = Inr False"
    if "ordered_keys F" "i < j" "j < length ids" for i j
  proof -
    from ordered_keys_total [OF that(1) mm ids0] have "total_keys ?K ids0" .
    from sorted_reverse_total(1) [OF this sr] that(2,3) show ?thesis
      by (simp add: sorted_wrt_iff_nth_less)
  qed
  from mm ids len rec ord show ?thesis by blast
qed

theorem scrape_all_ranked_by_key_witness:
  "\<exists>out gm.
     scrape_all unused_builtins
        \<lparr> global_metrics = no_metrics,
          agents_list = [[(u ''id'', PInt 1)], [(u ''id'', PInt 2)], [(u ''id'', PInt 3)]],
          metrics_list = [[(u ''id'', PInt 1), (u ''volume'', PInt 10)],
                          [(u ''id'', PInt 2), (u ''volume'', PInt 30)],
                          [(u ''id'', PInt 3), (u ''volume'', PInt 20)]],
          results = (\<lambda>aid. TaskReturned None None) \<rparr> = Inr (out, gm)
   \<and> ordered_keys
        \<lparr> global_metrics = no_metrics,
          agents_list = [[(u ''id'', PInt 1)], [(u ''id'', PInt 2)], [(u ''id'', PInt 3)]],
          metrics_list = [[(u ''id'', PInt 1), (u ''volume'', PInt 10)],
                          [(u ''id'', PInt 2), (u ''volume'', PInt 30)],
                          [(u ''id'', PInt 3), (u ''volume'', PInt 20)]],
          results = (\<lambda>aid. TaskReturned None None) \<rparr>
   \<and> length out = 3
   \<and> rank (out ! 0) = 1 \<and> agent_id (out ! 0) = PInt 2
   \<and> rank (out ! 1) = 2 \<and> agent_id (out ! 1) = PInt 3
   \<and> rank (out ! 2) = 3 \<and> agent_id (out ! 2) = PInt 1"
proof -
  let ?F = "\<lparr> global_metrics = no_metrics,
          agents_list = [[(u ''id'', PInt 1)], [(u ''id'', PInt 2)], [(u ''id'', PInt 3)]],
          metrics_list = [[(u ''id'', PInt 1), (u ''volume'', PInt 10)],
                          [(u ''id'', PInt 2), (u ''volume'', PInt 30)],
                          [(u ''id'', PInt 3), (u ''volume'', PInt 20)]],
          results = (\<lambda>aid. TaskReturned None None) \<rparr>"
  have "\<exists>out gm. scrape_all unused_builtins ?F = Inr (out, gm)"
    by (simp add: scrape_steps merge_steps value_defs)
  then obtain out gm where run: "scrape_all unused_builtins ?F = Inr (out, gm)" by blast
  have ok: "ordered_keys ?F"
    by (simp add: ordered_keys_def total_keys_def scrape_steps bindE_def value_defs)
  have sids: "sorted_ids unused_builtins ?F = Inr [2, 3, 1]"
    by (simp add: scrape_steps bindE_def value_defs)
  from scrape_all_ranked_by_key [OF run] sids have
    "length out = 3
     \<and> (\<forall>i<length out. rank (out ! i) = int i + 1
          \<and> ([2, 3, 1] ! i \<noteq> (0::int) \<longrightarrow> agent_id (out ! i) = PInt ([2, 3, 1] ! i)))"
    by auto
  then have "length out = 3
   \<and> rank (out ! 0) = 1 \<and> agent_id (out ! 0) = PInt 2
   \<and> rank (out ! 1) = 2 \<and> agent_id (out ! 1) = PInt 3
   \<and> rank (out ! 2) = 3 \<and> agent_id (out ! 2) = PInt 1"
    by (auto simp: all_less_three)
  with run ok show ?thesis by blast
qed

text \<open>
  C10 as stated fails when a ranking key is NaN. With leaderboard volumes 1, 1, NaN, 1,
  1, 1 and 2 for the agents 1 to 7, the sort (fewer than 64 elements: run detection and
  binary insertion) puts the ids in the order 2, 3, 7, 1, 4, 5, 6: agent 2 gets rank 1
  and agent 1 gets rank 4, both with the volume 1.
\<close>

theorem scrape_all_nan_ties_counterexample:
  "map_sum id (ranking \<circ> fst)
     (scrape_all unused_builtins
        \<lparr> global_metrics = no_metrics,
          agents_list = [],
          metrics_list = [[(u ''id'', PInt 1), (u ''volume'', PInt 1)],
                          [(u ''id'', PInt 2), (u ''volume'', PInt 1)],
                          [(u ''id'', PInt 3), (u ''volume'', PFloat NaN)],
                          [(u ''id'', PInt 4), (u ''volume'', PInt 1)],
                          [(u ''id'', PInt 5), (u ''volume'', PInt 1)],
                          [(u ''id'', PInt 6), (u ''volume'', PInt 1)],
                          [(u ''id'', PInt 7), (u ''volume'', PInt 2)]],
          results = (\<lambda>aid. TaskReturned None None) \<rparr>)
   = Inr [(1, PInt 2, PInt 1), (2, PInt 3, PFloat NaN), (3, PInt 7, PInt 2),
          (4, PInt 1, PInt 1), (5, PInt 4, PInt 1), (6, PInt 5, PInt 1),
          (7, PInt 6, PInt 1)]
 \<and> map_sum id (ties_by_id \<circ> fst)
     (scrape_all unused_builtins
        \<lparr> global_metrics = no_metrics,
          agents_list = [],
          metrics_list = [[(u ''id'', PInt 1), (u ''volume'', PInt 1)],
                          [(u ''id'', PInt 2), (u ''volume'', PInt 1)],
                          [(u ''id'', PInt 3), (u ''volume'', PFloat NaN)],
                          [(u ''id'', PInt 4), (u ''volume'', PInt 1)],
                          [(u ''id'', PInt 5), (u ''volume'', PInt 1)],
                          [(u ''id'', PInt 6), (u ''volume'', PInt 1)],
                          [(u ''id'', PInt 7), (u ''volume'', PInt 2)]],
          results = (\<lambda>aid. TaskReturned None None) \<rparr>)
   = Inr False"
  by (simp add: scrape_steps sort_steps merge_steps value_defs agent_record_sel ranking_def
      ties_by_id_def id_less_def)

text \<open>
  C10, amended. In the list a scrape run returns, when \<open><\<close> orders the ranking keys of
  the run totally (all of them numbers other than NaN, or all of them strings, or fewer
  than two keys), two ids with equal ranking key (neither key less than the other) appear in ascending order of
  id, and so do their records and ranks: the ids are sorted ascending before the
  ranking sort, and the ranking sort keeps the order of equal keys.
\<close>

theorem scrape_all_ties_by_id:
  assumes "scrape_all B F = Inr (out, gm)" and "ordered_keys F"
  shows "\<exists>mm ids.
      metrics_map F = Inr mm \<and> sorted_ids B F = Inr ids \<and> length out = length ids
    \<and> (\<forall>i<length out. rank (out ! i) = int i + 1
          \<and> (ids ! i \<noteq> 0 \<longrightarrow> agent_id (out ! i) = PInt (ids ! i)))
    \<and> (\<forall>i j. i < j \<and> j < length ids
          \<and> py_lt B (volume_key (ind_metrics_map F) mm (ids ! i))
                    (volume_key (ind_metrics_map F) mm (ids ! j)) = Inr False
          \<and> py_lt B (volume_key (ind_metrics_map F) mm (ids ! j))
                    (volume_key (ind_metrics_map F) mm (ids ! i)) = Inr False
          \<longrightarrow> ids ! i < ids ! j)"
proof -
  from scrape_all_output [OF assms(1)] obtain mm ids0 ids where
    mm: "metrics_map F = Inr mm" and ids0: "all_ids F = Inr ids0"
    and ids: "sorted_ids B F = Inr ids"
    and sr: "sorted_reverse B (volume_key (ind_metrics_map F) mm) ids0 = Inr ids"
    and len: "length out = length ids"
    and rec: "\<forall>i<length out. rank (out ! i) = int i + 1
          \<and> (ids ! i \<noteq> 0 \<longrightarrow> agent_id (out ! i) = PInt (ids ! i))"
    by blast
  let ?K = "volume_key (ind_metrics_map F) mm"
  from ordered_keys_total [OF assms(2) mm ids0] have "total_keys ?K ids0" .
  from sorted_reverse_total(2) [OF this sr all_ids_strict [OF ids0]]
  have ties: "ids ! i < ids ! j"
    if "i < j" "j < length ids" "py_lt B (?K (ids ! i)) (?K (ids ! j)) = Inr False"
      "py_lt B (?K (ids ! j)) (?K (ids ! i)) = Inr False" for i j
    using that by (simp add: sorted_wrt_iff_nth_less)
  from mm ids len rec ties show ?thesis by blast
qed

theorem scrape_all_ties_by_id_witness:
  "\<exists>out gm.
     scrape_all unused_builtins
        \<lparr> global_metrics = no_metrics,
          agents_list = [[(u ''id'', PInt 3)], [(u ''id'', PInt 1)], [(u ''id'', PInt 2)]],
          metrics_list = [[(u ''id'', PInt 2), (u ''volume'', PFloat (Finite 7))],
                          [(u ''id'', PInt 3), (u ''volume'', PInt 9)],
                          [(u ''id'', PInt 1), (u ''volume'', PInt 7)]],
          results = (\<lambda>aid. TaskReturned None None) \<rparr> = Inr (out, gm)
   \<and> ordered_keys
        \<lparr> global_metrics = no_metrics,
          agents_list = [[(u ''id'', PInt 3)], [(u ''id'', PInt 1)], [(u ''id'', PInt 2)]],
          metrics_list = [[(u ''id'', PInt 2), (u ''volume'', PFloat (Finite 7))],
                          [(u ''id'', PInt 3), (u ''volume'', PInt 9)],
                          [(u ''id'', PInt 1), (u ''volume'', PInt 7)]],
          results = (\<lambda>aid. TaskReturned None None) \<rparr>
   \<and> length out = 3
   \<and> rank (out ! 0) = 1 \<and> agent_id (out ! 0) = PInt 3
   \<and> rank (out ! 1) = 2 \<and> agent_id (out ! 1) = PInt 1
   \<and> rank (out ! 2) = 3 \<and> agent_id (out ! 2) = PInt 2"
proof -
  let ?F = "\<lparr> global_metrics = no_metrics,
          agents_list = [[(u ''id'', PInt 3)], [(u ''id'', PInt 1)], [(u ''id'', PInt 2)]],
          metrics_list = [[(u ''id'', PInt 2), (u ''volume'', PFloat (Finite 7))],
                          [(u ''id'', PInt 3), (u ''volume'', PInt 9)],
                          [(u ''id'', PInt 1), (u ''volume'', PInt 7)]],
          results = (\<lambda>aid. TaskReturned None None) \<rparr>"
  have "\<exists>out gm. scrape_all unused_builtins ?F = Inr (out, gm)"
    by (simp add: scrape_steps merge_steps value_defs)
  then obtain out gm where run: "scrape_all unused_builtins ?F = Inr (out, gm)" by blast
  have ok: "ordered_keys ?F"
    by (simp add: ordered_keys_def total_keys_def scrape_steps bindE_def value_defs)
  have sids: "sorted_ids unused_builtins ?F = Inr [3, 1, 2]"
    by (simp add: scrape_steps bindE_def value_defs)
  from scrape_all_ties_by_id [OF run ok] sids have
    "length out = 3
     \<and> (\<forall>i<length out. rank (out ! i) = int i + 1
          \<and> ([3, 1, 2] ! i \<noteq> (0::int) \<longrightarrow> agent_id (out ! i) = PInt ([3, 1, 2] ! i)))"
    by auto
  then have "length out = 3
   \<and> rank (out ! 0) = 1 \<and> agent_id (out ! 0) = PInt 3
   \<and> rank (out ! 1) = 2 \<and> agent_id (out ! 1) = PInt 1
   \<and> rank (out ! 2) = 3 \<and> agent_id (out ! 2) = PInt 2"
    by (auto simp: all_less_three)
  with run ok show ?thesis by blast
qed

end
